theory Spec2Isabelle
  imports Complex_Main
begin

section \<open>Strings and characters\<close>

text \<open>
  A Python \<open>str\<close> is a sequence of Unicode code points.  The model covers the code points
  0 to 255 (Latin-1), which is every character of every literal in \<open>app.py\<close> that the
  extraction engine and the command checks use, and every letter of Portuguese text: a
  \<open>char\<close> stands for the code point of the same number.  The character tables below
  (\<open>str.lower\<close>, canonical decomposition, \<open>str.isspace\<close>, \<open>str.isdigit\<close>, the regular
  expression classes) are the Unicode ones restricted to that range.
\<close>

definition code_point :: "char \<Rightarrow> nat" where
  "code_point c = of_char c"

definition py_lower_char :: "char \<Rightarrow> char" where
  \<comment> \<open>\<open>str.lower\<close> on one code point: A to Z, and the upper-case letters of U+00C0 to U+00DE
      (U+00D7, the multiplication sign, is not a letter).\<close>
  "py_lower_char c =
     (let n = code_point c
      in if (65 \<le> n \<and> n \<le> 90) \<or> (192 \<le> n \<and> n \<le> 222 \<and> n \<noteq> 215)
         then char_of (n + 32) else c)"

definition py_lower :: "string \<Rightarrow> string" where
  "py_lower s = map py_lower_char s"

definition strip_accent :: "char \<Rightarrow> char" where
  \<comment> \<open>\<open>unicodedata.normalize('NFD', c)\<close> with the characters of category \<open>Mn\<close> removed:
      a letter with a canonical decomposition keeps its base letter only.  No code point
      below 256 is of category \<open>Mn\<close> itself.\<close>
  "strip_accent c =
     (let n = code_point c
      in if 192 \<le> n \<and> n \<le> 197 then CHR ''A''
         else if n = 199 then CHR ''C''
         else if 200 \<le> n \<and> n \<le> 203 then CHR ''E''
         else if 204 \<le> n \<and> n \<le> 207 then CHR ''I''
         else if n = 209 then CHR ''N''
         else if 210 \<le> n \<and> n \<le> 214 then CHR ''O''
         else if 217 \<le> n \<and> n \<le> 220 then CHR ''U''
         else if n = 221 then CHR ''Y''
         else if 224 \<le> n \<and> n \<le> 229 then CHR ''a''
         else if n = 231 then CHR ''c''
         else if 232 \<le> n \<and> n \<le> 235 then CHR ''e''
         else if 236 \<le> n \<and> n \<le> 239 then CHR ''i''
         else if n = 241 then CHR ''n''
         else if 242 \<le> n \<and> n \<le> 246 then CHR ''o''
         else if 249 \<le> n \<and> n \<le> 252 then CHR ''u''
         else if n = 253 \<or> n = 255 then CHR ''y''
         else c)"

definition is_space :: "char \<Rightarrow> bool" where
  \<comment> \<open>\<open>str.isspace\<close>, which is also the class \<open>\s\<close> of \<open>re\<close> on \<open>str\<close> patterns.\<close>
  "is_space c =
     (let n = code_point c
      in (9 \<le> n \<and> n \<le> 13) \<or> (28 \<le> n \<and> n \<le> 32) \<or> n = 133 \<or> n = 160)"

definition py_strip :: "string \<Rightarrow> string" where
  "py_strip s = rev (dropWhile is_space (rev (dropWhile is_space s)))"

definition normalize :: "string \<Rightarrow> string" where
  "normalize text = py_strip (map strip_accent (py_lower text))"

section \<open>Levenshtein distance and similarity\<close>

text \<open>
  The table \<open>dp\<close> is a list of rows, filled in place by the two initialisation loops and
  the nested loop of the source.  Every index the source reads is in range.
\<close>

definition lev_cell :: "string \<Rightarrow> string \<Rightarrow> nat \<Rightarrow> nat \<Rightarrow> nat list list \<Rightarrow> nat list list" where
  "lev_cell a b i j dp =
     (let cost = (if a ! (i - 1) = b ! (j - 1) then 0 else 1)
      in dp[i := (dp ! i)[j := min (dp ! (i - 1) ! j + 1)
                                (min (dp ! i ! (j - 1) + 1) (dp ! (i - 1) ! (j - 1) + cost))]])"

definition lev_row :: "string \<Rightarrow> string \<Rightarrow> nat \<Rightarrow> nat list list \<Rightarrow> nat list list" where
  "lev_row a b i dp = fold (lev_cell a b i) [1..<length b + 1] dp"

definition lev_init :: "nat \<Rightarrow> nat \<Rightarrow> nat list list" where
  "lev_init m n =
     (let dp0 = replicate (m + 1) (replicate (n + 1) 0);
          dp1 = fold (\<lambda>i dp. dp[i := (dp ! i)[0 := i]]) [0..<m + 1] dp0
      in fold (\<lambda>j dp. dp[0 := (dp ! 0)[j := j]]) [0..<n + 1] dp1)"

definition lev_table :: "string \<Rightarrow> string \<Rightarrow> nat list list" where
  "lev_table a b = fold (lev_row a b) [1..<length a + 1] (lev_init (length a) (length b))"

definition levenshtein_distance :: "string \<Rightarrow> string \<Rightarrow> nat" where
  "levenshtein_distance a b =
     (let m = length a; n = length b
      in if m = 0 then n
         else if n = 0 then m
         else lev_table a b ! m ! n)"

text \<open>
  The score is a Python float; the model computes the same expression over the rationals.
\<close>

definition similarity_percentage :: "string \<Rightarrow> string \<Rightarrow> rat" where
  "similarity_percentage a0 b0 =
     (let a = normalize a0; b = normalize b0;
          distance = levenshtein_distance a b;
          max_len = max (length a) (length b)
      in if max_len = 0 then 100
         else (1 - of_nat distance / of_nat max_len) * 100)"

section \<open>Number words\<close>

text \<open>
  The four dictionaries of the source, as association lists in insertion order.  The
  literal of \<open>units\<close> writes the key \<open>tres\<close> twice with the same value; a Python dict
  keeps one entry for it, at the place of the first.
\<close>

definition units :: "(string \<times> int) list" where
  "units =
     [(''0'', 0), (''1'', 1), (''2'', 2), (''3'', 3), (''4'', 4), (''5'', 5), (''6'', 6),
      (''7'', 7), (''8'', 8), (''9'', 9),
      (''zero'', 0), (''um'', 1), (''uma'', 1), (''dois'', 2), (''duas'', 2), (''dos'', 2),
      (''tres'', 3), (''treis'', 3),
      (''quatro'', 4), (''quarto'', 4), (''cinco'', 5), (''cnico'', 5), (''seis'', 6),
      (''ses'', 6), (''sete'', 7), (''oito'', 8), (''nove'', 9), (''nov'', 9)]"

definition teens :: "(string \<times> int) list" where
  "teens =
     [(''dez'', 10), (''onze'', 11), (''doze'', 12), (''treze'', 13), (''quatorze'', 14),
      (''catorze'', 14), (''quinze'', 15), (''dezesseis'', 16), (''dezessete'', 17),
      (''dezoito'', 18), (''dezenove'', 19)]"

definition tens :: "(string \<times> int) list" where
  "tens =
     [(''vinte'', 20), (''trinta'', 30), (''quarenta'', 40), (''cinquenta'', 50),
      (''sessenta'', 60), (''setenta'', 70), (''oitenta'', 80), (''noventa'', 90)]"

definition hundreds :: "(string \<times> int) list" where
  "hundreds =
     [(''cem'', 100), (''cento'', 100), (''duzentos'', 200), (''trezentos'', 300),
      (''quatrocentos'', 400), (''quinhentos'', 500), (''seiscentos'', 600),
      (''setecentos'', 700), (''oitocentos'', 800), (''novecentos'', 900)]"

definition word2num_all :: "(string \<times> int) list" where
  \<comment> \<open>The four key sets are disjoint, so the merge is the concatenation.\<close>
  "word2num_all = units @ teens @ tens @ hundreds"

definition in_dict :: "string \<Rightarrow> (string \<times> int) list \<Rightarrow> bool" where
  "in_dict t d = (map_of d t \<noteq> None)"

definition dict_get :: "(string \<times> int) list \<Rightarrow> string \<Rightarrow> int" where
  \<comment> \<open>\<open>d[t]\<close>, read only under the guard \<open>t in d\<close>.\<close>
  "dict_get d t = (case map_of d t of Some v \<Rightarrow> v | None \<Rightarrow> 0)"

fun parse_number_words_loop :: "string list \<Rightarrow> int \<Rightarrow> int" where
  "parse_number_words_loop [] tot = tot"
| "parse_number_words_loop (t # ts) tot =
     (if in_dict t hundreds then parse_number_words_loop ts (tot + dict_get hundreds t)
      else if in_dict t tens then
        (case ts of
           u # rest \<Rightarrow>
             if in_dict u units
             then parse_number_words_loop rest (tot + (dict_get tens t + dict_get units u))
             else parse_number_words_loop ts (tot + dict_get tens t)
         | [] \<Rightarrow> parse_number_words_loop ts (tot + dict_get tens t))
      else if in_dict t teens then parse_number_words_loop ts (tot + dict_get teens t)
      else if in_dict t units then parse_number_words_loop ts (tot + dict_get units t)
      else parse_number_words_loop ts tot)"

definition parse_number_words :: "string list \<Rightarrow> int option" where
  "parse_number_words tokens =
     (let tot = parse_number_words_loop tokens 0
      in if tot > 0 then Some tot else None)"

section \<open>Segmentation\<close>

definition is_decimal :: "char \<Rightarrow> bool" where
  \<comment> \<open>The class \<open>\d\<close>: the decimal digits.\<close>
  "is_decimal c = (let n = code_point c in 48 \<le> n \<and> n \<le> 57)"

definition is_ascii_letter :: "char \<Rightarrow> bool" where
  \<comment> \<open>The class \<open>[a-zA-Z]\<close>.\<close>
  "is_ascii_letter c = (let n = code_point c in (65 \<le> n \<and> n \<le> 90) \<or> (97 \<le> n \<and> n \<le> 122))"

definition is_word_char :: "char \<Rightarrow> bool" where
  \<comment> \<open>The class \<open>\w\<close> on \<open>str\<close> patterns: alphanumeric code points and the underscore.\<close>
  "is_word_char c =
     (let n = code_point c
      in (48 \<le> n \<and> n \<le> 57) \<or> (65 \<le> n \<and> n \<le> 90) \<or> n = 95 \<or> (97 \<le> n \<and> n \<le> 122) \<or>
         n = 170 \<or> n = 178 \<or> n = 179 \<or> n = 181 \<or> n = 185 \<or> n = 186 \<or>
         (188 \<le> n \<and> n \<le> 190) \<or> (192 \<le> n \<and> n \<le> 214) \<or> (216 \<le> n \<and> n \<le> 246) \<or>
         248 \<le> n)"

text \<open>
  \<open>re.sub(r"(\d+)([a-zA-Z])", r"\1 \2", text)\<close>: scanning from the left, a maximal run of
  digits followed by a letter is rewritten with a space between them, and the scan goes on
  after the letter; where no match starts the character is copied.
\<close>

function sub_digits_letter :: "string \<Rightarrow> string" where
  "sub_digits_letter [] = []"
| "sub_digits_letter (c # rest) =
     (if is_decimal c then
        (case dropWhile is_decimal (c # rest) of
           l # rest' \<Rightarrow>
             if is_ascii_letter l
             then takeWhile is_decimal (c # rest) @ '' '' @ [l] @ sub_digits_letter rest'
             else c # sub_digits_letter rest
         | [] \<Rightarrow> c # sub_digits_letter rest)
      else c # sub_digits_letter rest)"
  by pat_completeness auto
termination
proof (relation "measure length")
  fix c :: char and rest x21 x22
  assume "dropWhile is_decimal (c # rest) = x21 # x22"
  then have "length (x21 # x22) \<le> length (c # rest)"
    by (metis length_dropWhile_le)
  then show "(x22, c # rest) \<in> measure length" by simp
qed simp_all

text \<open>
  \<open>re.sub(r"([a-zA-Z])(\d+)", r"\1 \2", text)\<close>: a letter followed by a maximal non-empty
  run of digits gets a space after the letter, and the scan goes on after the digits.
\<close>

function sub_letter_digits :: "string \<Rightarrow> string" where
  "sub_letter_digits [] = []"
| "sub_letter_digits (c # rest) =
     (if is_ascii_letter c \<and> takeWhile is_decimal rest \<noteq> []
      then c # '' '' @ takeWhile is_decimal rest @ sub_letter_digits (dropWhile is_decimal rest)
      else c # sub_letter_digits rest)"
  by pat_completeness auto
termination
  by (relation "measure length") (simp_all add: length_dropWhile_le less_Suc_eq_le)

definition starts_with :: "string \<Rightarrow> string \<Rightarrow> bool" where
  "starts_with s w = (take (length w) s = w)"

text \<open>
  \<open>str.replace(old, new)\<close> for a non-empty \<open>old\<close>: the occurrences are replaced from the
  left, without overlap.  (With an empty \<open>old\<close> Python puts \<open>new\<close> around every character;
  the source never does that.)
\<close>

function py_replace :: "string \<Rightarrow> string \<Rightarrow> string \<Rightarrow> string" where
  "py_replace old new [] = (if old = [] then new else [])"
| "py_replace old new (c # rest) =
     (if old = [] then new @ c # py_replace old new rest
      else if starts_with (c # rest) old
      then new @ py_replace old new (drop (length old) (c # rest))
      else c # py_replace old new rest)"
  by pat_completeness auto
termination
  by (relation "measure (\<lambda>(old, new, s). length s)") auto

text \<open>
  \<open>re.sub(rf"\b{re.escape(w)}\b", f" {w} ", text)\<close>: \<open>prev\<close> is the character of the text
  before the current place (\<open>None\<close> at the start).  A word boundary lies between a word
  character and a character that is none, the two ends of the text counting as none.
\<close>

definition word_boundary :: "char option \<Rightarrow> char option \<Rightarrow> bool" where
  "word_boundary l r =
     ((case l of None \<Rightarrow> False | Some c \<Rightarrow> is_word_char c)
        \<noteq> (case r of None \<Rightarrow> False | Some c \<Rightarrow> is_word_char c))"

definition first_char :: "string \<Rightarrow> char option" where
  "first_char s = (case s of [] \<Rightarrow> None | c # _ \<Rightarrow> Some c)"

function sub_word :: "string \<Rightarrow> char option \<Rightarrow> string \<Rightarrow> string" where
  "sub_word w prev [] = []"
| "sub_word w prev (c # rest) =
     (if w \<noteq> [] \<and> starts_with (c # rest) w \<and> word_boundary prev (Some c)
         \<and> word_boundary (Some (last w)) (first_char (drop (length w) (c # rest)))
      then '' '' @ w @ '' '' @ sub_word w (Some (last w)) (drop (length w) (c # rest))
      else c # sub_word w (Some c) rest)"
  by pat_completeness auto
termination
  by (relation "measure (\<lambda>(w, prev, s). length s)") auto

text \<open>\<open>re.sub(r"\s+", " ", text)\<close>: every maximal run of white space becomes one space.\<close>

function collapse_spaces :: "string \<Rightarrow> string" where
  "collapse_spaces [] = []"
| "collapse_spaces (c # rest) =
     (if is_space c then CHR '' '' # collapse_spaces (dropWhile is_space rest)
      else c # collapse_spaces rest)"
  by pat_completeness auto
termination
  by (relation "measure length") (simp_all add: length_dropWhile_le less_Suc_eq_le)

text \<open>\<open>str.split()\<close>: the maximal runs of characters that are not white space.\<close>

function py_split :: "string \<Rightarrow> string list" where
  "py_split s =
     (case dropWhile is_space s of
        [] \<Rightarrow> []
      | c # rest \<Rightarrow>
          takeWhile (\<lambda>x. \<not> is_space x) (c # rest)
            # py_split (dropWhile (\<lambda>x. \<not> is_space x) rest))"
  by pat_completeness auto
termination
proof (relation "measure length")
  fix s :: string and c rest
  assume "dropWhile is_space s = c # rest"
  then have "length (c # rest) \<le> length s"
    by (metis length_dropWhile_le)
  moreover have "length (dropWhile (\<lambda>x. \<not> is_space x) rest) \<le> length rest"
    by (rule length_dropWhile_le)
  ultimately show "(dropWhile (\<lambda>x. \<not> is_space x) rest, s) \<in> measure length" by simp
qed simp

declare py_split.simps [simp del]

definition py_join :: "string \<Rightarrow> string list \<Rightarrow> string" where
  "py_join sep xs = (case xs of [] \<Rightarrow> [] | x # rest \<Rightarrow> x @ concat (map (\<lambda>y. sep @ y) rest))"

definition protected_teens :: "string list" where
  "protected_teens = [''dezesseis'', ''dezessete'', ''dezoito'', ''dezenove'']"

definition number_keys :: "string list" where
  \<comment> \<open>\<open>sorted(word2num_all.keys(), key=len, reverse=True)\<close>: longest first, keys of the
      same length in their dictionary order (the sort is stable).\<close>
  "number_keys = sort_key (\<lambda>w. - int (length w)) (map fst word2num_all)"

definition separate_numbers_and_words :: "string \<Rightarrow> string" where
  "separate_numbers_and_words text0 =
     (let text1 = py_lower text0;
          text2 = sub_digits_letter text1;
          text3 = sub_letter_digits text2;
          text4 = fold (\<lambda>teen text. py_replace teen ('' '' @ teen @ '' '') text) protected_teens text3;
          text5 = fold (\<lambda>w text. if w \<notin> set protected_teens then sub_word w None text else text)
                    number_keys text4
      in py_strip (collapse_spaces text5))"

definition is_punctuation :: "char \<Rightarrow> bool" where
  \<comment> \<open>The class \<open>[,\.;\+\-\/\(\)\[\]\:]\<close>.\<close>
  "is_punctuation c = (c \<in> set '',.;+-/()[]:'')"

definition tokenize :: "string \<Rightarrow> string list" where
  \<comment> \<open>The first lines of \<open>parse_order_interactive\<close>, down to \<open>tokens = message.split()\<close>.\<close>
  "tokenize message0 =
     (let message1 = normalize message0;
          message2 = separate_numbers_and_words message1;
          message3 = map (\<lambda>c. if is_punctuation c then CHR '' '' else c) message2;
          message4 = py_strip (collapse_spaces message3)
      in py_split message4)"

section \<open>Number extraction\<close>

datatype error = ValueError | DataError

definition isdigit_char :: "char \<Rightarrow> bool" where
  \<comment> \<open>\<open>str.isdigit\<close> on one code point: the decimal digits and the superscripts
      U+00B2, U+00B3, U+00B9.\<close>
  "isdigit_char c = (let n = code_point c in (48 \<le> n \<and> n \<le> 57) \<or> n = 178 \<or> n = 179 \<or> n = 185)"

definition isdigit :: "string \<Rightarrow> bool" where
  "isdigit t = (t \<noteq> [] \<and> list_all isdigit_char t)"

definition py_int :: "string \<Rightarrow> error + int" where
  \<comment> \<open>\<open>int(t)\<close> on a token that passed \<open>isdigit\<close>: a superscript digit is no decimal
      literal and raises \<open>ValueError\<close>.  (The cap that recent interpreters put on the
      length of a decimal literal is left out.)\<close>
  "py_int t =
     (if t \<noteq> [] \<and> list_all is_decimal t
      then Inr (foldl (\<lambda>acc c. 10 * acc + int (code_point c - 48)) 0 t)
      else Inl ValueError)"

function combine_number_words :: "string list \<Rightarrow> nat \<Rightarrow> string list \<Rightarrow> nat \<times> string list" where
  "combine_number_words tokens j num_tokens =
     (if j + 1 < length tokens \<and> tokens ! j = ''e'' \<and> in_dict (tokens ! (j + 1)) word2num_all
      then combine_number_words tokens (j + 2) (num_tokens @ [tokens ! j, tokens ! (j + 1)])
      else (j, num_tokens))"
  by pat_completeness auto
termination
  by (relation "measure (\<lambda>(tokens, j, num_tokens). length tokens - j)") auto

declare combine_number_words.simps [simp del]

definition number_run :: "string list \<Rightarrow> nat \<Rightarrow> nat \<times> int option" where
  \<comment> \<open>The branch of \<open>extract_numbers_and_positions\<close> for a number word at \<open>i\<close>: the place
      after the run and the value of the run.\<close>
  "number_run tokens i =
     (let (j, num_tokens) = combine_number_words tokens (i + 1) [tokens ! i]
      in (j, parse_number_words (filter (\<lambda>t. t \<noteq> ''e'') num_tokens)))"

function extract_loop :: "string list \<Rightarrow> nat \<Rightarrow> (nat \<times> int) list \<Rightarrow> error + (nat \<times> int) list" where
  "extract_loop tokens i numbers =
     (if i < length tokens then
        (if isdigit (tokens ! i) then
           (case py_int (tokens ! i) of
              Inl e \<Rightarrow> Inl e
            | Inr v \<Rightarrow> extract_loop tokens (i + 1) (numbers @ [(i, v)]))
         else if in_dict (tokens ! i) word2num_all then
           (case snd (number_run tokens i) of
              Some number \<Rightarrow>
                extract_loop tokens (fst (number_run tokens i)) (numbers @ [(i, number)])
            | None \<Rightarrow> extract_loop tokens (i + 1) numbers)
         else extract_loop tokens (i + 1) numbers)
      else Inr numbers)"
  by pat_completeness auto
termination
proof (relation "measure (\<lambda>(tokens, i, numbers). length tokens - i)")
  fix tokens :: "string list" and i :: nat and numbers :: "(nat \<times> int) list" and x2 :: int
  assume i: "i < length tokens"
  have run: "j \<le> fst (combine_number_words tokens j acc)" for j acc
  proof (induction tokens j acc rule: combine_number_words.induct)
    case (1 tokens j num_tokens)
    show ?case
    proof (cases "j + 1 < length tokens \<and> tokens ! j = ''e''
                    \<and> in_dict (tokens ! (j + 1)) word2num_all")
      case True
      with 1 have "j + 2 \<le> fst (combine_number_words tokens j num_tokens)"
        by (subst combine_number_words.simps) simp
      then show ?thesis by simp
    next
      case False
      then show ?thesis by (subst combine_number_words.simps) auto
    qed
  qed
  have "i + 1 \<le> fst (number_run tokens i)"
    using run [of "i + 1" "[tokens ! i]"] by (simp add: number_run_def split_def Let_def)
  then show "((tokens, fst (number_run tokens i), numbers @ [(i, x2)]), tokens, i, numbers)
              \<in> measure (\<lambda>(tokens, i, numbers). length tokens - i)"
    using i by simp
qed auto

declare extract_loop.simps [simp del]

definition extract_numbers_and_positions :: "string list \<Rightarrow> error + (nat \<times> int) list" where
  "extract_numbers_and_positions tokens = extract_loop tokens 0 []"

section \<open>Quantity association\<close>

definition is_number_token :: "string \<Rightarrow> bool" where
  "is_number_token t = (isdigit t \<or> in_dict t word2num_all)"

definition max_by_pos :: "(nat \<times> int) list \<Rightarrow> nat \<times> int" where
  \<comment> \<open>\<open>max(xs, key=lambda x: x[0])\<close> on a non-empty list: the first of the greatest.\<close>
  "max_by_pos xs = foldl (\<lambda>best x. if fst x > fst best then x else best) (hd xs) (tl xs)"

definition min_by_pos :: "(nat \<times> int) list \<Rightarrow> nat \<times> int" where
  "min_by_pos xs = foldl (\<lambda>best x. if fst x < fst best then x else best) (hd xs) (tl xs)"

definition number_at :: "nat \<Rightarrow> (nat \<times> int) list \<Rightarrow> (nat \<times> int) option" where
  \<comment> \<open>\<open>for pos, val in numbers_with_positions: if pos == p: return val, pos\<close>\<close>
  "number_at p numbers_with_positions = find (\<lambda>(pos, val). pos = p) numbers_with_positions"

definition find_associated_number ::
  "nat \<Rightarrow> string list \<Rightarrow> (nat \<times> int) list \<Rightarrow> int \<times> nat option" where
  "find_associated_number product_position all_tokens numbers_with_positions =
     (if numbers_with_positions = [] then (1, None)
      else
        case (if product_position > 0 \<and> is_number_token (all_tokens ! (product_position - 1))
              then number_at (product_position - 1) numbers_with_positions else None) of
          Some (pos, val) \<Rightarrow> (val, Some pos)
        | None \<Rightarrow>
            let numbers_before = filter (\<lambda>(pos, val). pos < product_position) numbers_with_positions
            in if numbers_before \<noteq> []
               then (snd (max_by_pos numbers_before), Some (fst (max_by_pos numbers_before)))
               else
                 case (if product_position + 1 < length all_tokens
                            \<and> is_number_token (all_tokens ! (product_position + 1))
                       then number_at (product_position + 1) numbers_with_positions else None) of
                   Some (pos, val) \<Rightarrow> (val, Some pos)
                 | None \<Rightarrow>
                     let numbers_after =
                           filter (\<lambda>(pos, val). pos > product_position) numbers_with_positions
                     in if numbers_after \<noteq> []
                        then (snd (min_by_pos numbers_after), Some (fst (min_by_pos numbers_after)))
                        else (1, None))"

section \<open>The store of catalog rows\<close>

text \<open>
  A catalog is a Python list of two-element lists \<open>[name, quantity]\<close>.  The inner lists are
  the objects the program writes to (\<open>working_db[idx][1] += quantity\<close>), so they live in a
  store: a row is addressed by its index in the store, and a catalog is the list of the
  addresses of its rows.  The outer lists are never written to and are values.
  \<open>deepcopy\<close> allocates a fresh row for every row of its argument, and keeps the sharing
  (a row that occurs twice is copied once), as the memo of \<open>copy.deepcopy\<close> does.
\<close>

type_synonym addr = nat
type_synonym row = "string \<times> int"
type_synonym store = "row list"
type_synonym catalog = "addr list"

fun deepcopy_rows :: "store \<Rightarrow> catalog \<Rightarrow> (addr \<times> addr) list \<Rightarrow> store \<times> catalog" where
  "deepcopy_rows h [] memo = (h, [])"
| "deepcopy_rows h (a # as) memo =
     (case map_of memo a of
        Some a' \<Rightarrow> (let (h', out) = deepcopy_rows h as memo in (h', a' # out))
      | None \<Rightarrow>
          (let (h', out) = deepcopy_rows (h @ [h ! a]) as ((a, length h) # memo)
           in (h', length h # out)))"

definition deepcopy :: "store \<Rightarrow> catalog \<Rightarrow> store \<times> catalog" where
  "deepcopy h cat = deepcopy_rows h cat []"

definition rows_of :: "store \<Rightarrow> catalog \<Rightarrow> row list" where
  \<comment> \<open>The entries of a catalog, read from the store.\<close>
  "rows_of h cat = map (\<lambda>a. h ! a) cat"

definition add_quantity :: "addr \<Rightarrow> int \<Rightarrow> store \<Rightarrow> store" where
  \<comment> \<open>\<open>row[1] += quantity\<close> on the row at address \<open>a\<close>.\<close>
  "add_quantity a quantity h = h[a := (fst (h ! a), snd (h ! a) + quantity)]"

section \<open>Order extraction\<close>

record parsed_order =
  product :: string
  qty :: int
  score :: rat

definition py_round2 :: "rat \<Rightarrow> rat" where
  \<comment> \<open>\<open>round(x, 2)\<close>, to the nearest, a tie to the even neighbour.\<close>
  "py_round2 x =
     (let y = x * 100; f = \<lfloor>y\<rfloor>; d = y - of_int f
      in of_int (if d < 1 / 2 then f
                 else if d > 1 / 2 then f + 1
                 else if even f then f else f + 1) / 100)"

definition similarity_threshold :: rat where
  \<comment> \<open>The default of the parameter; no caller passes another value.\<close>
  "similarity_threshold = 80"

definition filler_words :: "string set" where
  "filler_words = {''quero'', ''e''}"

record parse_ctx =
  tokens :: "string list"
  numbers_with_positions :: "(nat \<times> int) list"
  working_db :: catalog
  product_names :: "string list"
  sorted_products :: "(string \<times> nat) list"
  max_prod_words :: nat
  product_words :: "string set"

record parse_state =
  working_store :: store
  parsed_orders :: "parsed_order list"
  used_positions :: "nat set"
  used_numbers :: "nat set"

definition find_best_product :: "string \<Rightarrow> (string \<times> nat) list \<Rightarrow> rat \<times> (string \<times> nat) option" where
  \<comment> \<open>The loop that keeps the first product of the greatest score above 0.\<close>
  "find_best_product phrase_norm prods =
     fold (\<lambda>(prod_name, orig_idx) (best_score, best).
             let score = similarity_percentage phrase_norm (normalize prod_name)
             in if score > best_score then (score, Some (prod_name, orig_idx))
                else (best_score, best))
          prods (0, None)"

definition reassign_if_used ::
  "(nat \<times> int) list \<Rightarrow> nat set \<Rightarrow> int \<times> nat option \<Rightarrow> int \<times> nat option" where
  \<comment> \<open>\<open>if number_position is not None and number_position in used_numbers: ...\<close>\<close>
  "reassign_if_used numbers used chosen =
     (case snd chosen of
        None \<Rightarrow> chosen
      | Some p \<Rightarrow>
          if p \<in> used
          then (case find (\<lambda>(pos, val). pos \<notin> used) numbers of
                  Some (pos, val) \<Rightarrow> (val, Some pos)
                | None \<Rightarrow> chosen)
          else chosen)"

definition commit_match ::
  "parse_ctx \<Rightarrow> nat \<Rightarrow> nat \<Rightarrow> string \<Rightarrow> nat \<Rightarrow> rat \<Rightarrow> parse_state \<Rightarrow> parse_state" where
  \<comment> \<open>What both the window branch and the single-token branch do once a product is chosen.\<close>
  "commit_match cx i size' best_product best_original_idx best_score st =
     (let (quantity, number_position) =
            reassign_if_used (numbers_with_positions cx) (used_numbers st)
              (find_associated_number i (tokens cx) (numbers_with_positions cx))
      in st\<lparr>working_store :=
               add_quantity (working_db cx ! best_original_idx) quantity (working_store st),
            parsed_orders :=
               parsed_orders st
                 @ [\<lparr>product = best_product, qty = quantity, score = py_round2 best_score\<rparr>],
            used_positions := used_positions st \<union> {i..<i + size'},
            used_numbers :=
               (case number_position of
                  None \<Rightarrow> used_numbers st
                | Some p \<Rightarrow> insert p (used_numbers st))\<rparr>)"

definition skip_phrase :: "parse_ctx \<Rightarrow> nat \<Rightarrow> nat \<Rightarrow> parse_state \<Rightarrow> bool" where
  "skip_phrase cx i size' st =
     list_ex (\<lambda>j. i + j \<in> used_positions st \<or>
                  (let t = tokens cx ! (i + j)
                   in isdigit t \<or> in_dict t word2num_all \<or>
                      (t \<in> filler_words \<and> t \<notin> product_words cx)))
       [0..<size']"

text \<open>
  The loop over the window sizes, from the longest: \<open>Some (size', st')\<close> when a window of
  that size was committed.  A score that reaches the threshold is above 0, so a best
  product was recorded with it.
\<close>

fun try_sizes :: "parse_ctx \<Rightarrow> nat \<Rightarrow> nat list \<Rightarrow> parse_state \<Rightarrow> (nat \<times> parse_state) option" where
  "try_sizes cx i [] st = None"
| "try_sizes cx i (size' # sizes) st =
     (if i + size' > length (tokens cx) then try_sizes cx i sizes st
      else if skip_phrase cx i size' st then try_sizes cx i sizes st
      else
        let phrase = py_join '' '' (take size' (drop i (tokens cx)));
            phrase_norm = normalize phrase
        in case find_best_product phrase_norm (sorted_products cx) of
             (best_score, Some (best_product, best_original_idx)) \<Rightarrow>
               if best_score \<ge> similarity_threshold
               then Some (size', commit_match cx i size' best_product best_original_idx best_score st)
               else try_sizes cx i sizes st
           | (best_score, None) \<Rightarrow> try_sizes cx i sizes st)"

definition window_sizes :: "parse_ctx \<Rightarrow> nat list" where
  \<comment> \<open>\<open>range(min(max_prod_words, 4), 0, -1)\<close>\<close>
  "window_sizes cx = rev [1..<min (max_prod_words cx) 4 + 1]"

definition single_token_match :: "parse_ctx \<Rightarrow> nat \<Rightarrow> parse_state \<Rightarrow> parse_state" where
  \<comment> \<open>The branch \<open>if not matched\<close>, before its \<open>i += 1\<close>.\<close>
  "single_token_match cx i st =
     (let phrase_norm = normalize (tokens cx ! i)
      in case find_best_product phrase_norm (zip (product_names cx) [0..<length (product_names cx)]) of
           (best_score, Some (best_match, best_original_idx)) \<Rightarrow>
             if best_match \<noteq> [] \<and> best_score > 50
             then commit_match cx i 1 best_match best_original_idx best_score st
             else st
         | (best_score, None) \<Rightarrow> st)"

definition skip_token :: "parse_ctx \<Rightarrow> nat \<Rightarrow> bool" where
  "skip_token cx i =
     (let token = tokens cx ! i
      in (token \<in> filler_words \<and> token \<notin> product_words cx) \<or>
         (isdigit token \<and> i \<notin> set (map fst (numbers_with_positions cx))) \<or>
         in_dict token word2num_all)"

function parse_loop :: "parse_ctx \<Rightarrow> nat \<Rightarrow> parse_state \<Rightarrow> parse_state" where
  "parse_loop cx i st =
     (if i < length (tokens cx) then
        (if i \<in> used_positions st then parse_loop cx (i + 1) st
         else if skip_token cx i then parse_loop cx (i + 1) st
         else
           case try_sizes cx i (window_sizes cx) st of
             Some (size', st') \<Rightarrow> parse_loop cx (i + size') st'
           | None \<Rightarrow> parse_loop cx (i + 1) (single_token_match cx i st))
      else st)"
  by pat_completeness auto
termination
proof (relation "measure (\<lambda>(cx, i, st). length (tokens cx) - i)")
  fix cx :: parse_ctx and i :: nat and st :: parse_state and x2 :: "nat \<times> parse_state"
    and size' :: nat and st' :: parse_state
  assume i: "i < length (tokens cx)"
    and found: "try_sizes cx i (window_sizes cx) st = Some x2" "(size', st') = x2"
  have mem: "try_sizes cx i sizes st = Some (n, s) \<Longrightarrow> n \<in> set sizes" for sizes n s
    by (induction sizes) (auto split: if_splits prod.splits option.splits simp: Let_def)
  have "size' \<in> set (window_sizes cx)"
    using found mem [of "window_sizes cx" size' st'] by simp
  then have "1 \<le> size'" by (auto simp add: window_sizes_def)
  then show "((cx, i + size', st'), cx, i, st) \<in> measure (\<lambda>(cx, i, st). length (tokens cx) - i)"
    using i by simp
qed auto

declare parse_loop.simps [simp del]

definition py_max :: "nat list \<Rightarrow> error + nat" where
  \<comment> \<open>\<open>max\<close> of a sequence raises \<open>ValueError\<close> on the empty one.\<close>
  "py_max xs = (if xs = [] then Inl ValueError else Inr (Max (set xs)))"

text \<open>
  \<open>parse_order_interactive\<close> takes the store and returns the store it leaves, next to its
  result or the exception it raises.
\<close>

definition parse_order_interactive ::
  "string \<Rightarrow> catalog \<Rightarrow> store \<Rightarrow> (error + parsed_order list \<times> catalog) \<times> store" where
  "parse_order_interactive message products_db h =
     (let toks = tokenize message;
          (h1, wdb) = deepcopy h products_db
      in case extract_numbers_and_positions toks of
           Inl e \<Rightarrow> (Inl e, h1)
         | Inr numbers \<Rightarrow>
             let names = map (\<lambda>a. fst (h1 ! a)) products_db;
                 sorted_prods =
                   sort_key (\<lambda>(p, i). - int (length (py_split p))) (zip names [0..<length names])
             in case py_max (map (\<lambda>p. length (py_split p)) names) of
                  Inl e \<Rightarrow> (Inl e, h1)
                | Inr mpw \<Rightarrow>
                    let cx = \<lparr>tokens = toks, numbers_with_positions = numbers, working_db = wdb,
                              product_names = names, sorted_products = sorted_prods,
                              max_prod_words = mpw,
                              product_words = set (map normalize (concat (map py_split names)))\<rparr>;
                        st = parse_loop cx 0
                               \<lparr>working_store = h1, parsed_orders = [], used_positions = {},
                                used_numbers = {}\<rparr>
                    in (Inr (parsed_orders st, wdb), working_store st))"

section \<open>The catalog of the program\<close>

definition products_db_rows :: "row list" where
  \<comment> \<open>The literal \<open>products_db\<close>, with the characters the file holds: the accented letters
      of the names are stored as two code points each (U+00C3 and a second one).\<close>
  "products_db_rows =
     [(''lim'' @ [CHR 0xC3, CHR 0xA3] @ ''o'', 0),
      (''abacaxi'', 0), (''abacaxi com hortel'' @ [CHR 0xC3, CHR 0xA3], 0),
      (''a'' @ [CHR 0xC3, CHR 0xA7] @ ''a'' @ [CHR 0xC3, CHR 0xAD], 0), (''acerola'', 0),
      (''ameixa'', 0), (''caj'' @ [CHR 0xC3, CHR 0xA1], 0), (''caj'' @ [CHR 0xC3, CHR 0xBA], 0),
      (''goiaba'', 0), (''graviola'', 0),
      (''manga'', 0), (''maracuj'' @ [CHR 0xC3, CHR 0xA1], 0), (''morango'', 0),
      (''seriguela'', 0), (''tamarindo'', 0),
      (''caixa de ovos'', 0), (''ovo'', 0), (''queijo'', 0)]"

definition products_db :: catalog where
  \<comment> \<open>The global catalog: its rows are the first objects of the store.\<close>
  "products_db = [0..<length products_db_rows]"

section \<open>The conversation session\<close>

text \<open>
  The attributes of \<open>OrderSession\<close> that the state machine reads and writes, together with
  the two pieces of the world its methods write to: the store of catalog rows and the table
  \<open>confirmed_orders\<close> of the database.  The state is the string the source holds.  A bot
  message is kept by its kind and the data interpolated into it, not by its text.  The
  pending \<open>threading.Timer\<close> is kept by the callback it will run.
\<close>

type_synonym py_dict = "(string \<times> int) list"

fun dict_set :: "py_dict \<Rightarrow> string \<Rightarrow> int \<Rightarrow> py_dict" where
  \<comment> \<open>\<open>d[k] = v\<close>: a new key goes to the end, a known key keeps its place.\<close>
  "dict_set [] k v = [(k, v)]"
| "dict_set ((k', v') # d) k v = (if k' = k then (k, v) # d else (k', v') # dict_set d k v)"

datatype bot_message =
    Restarted
  | Summary py_dict
  | Reminder int py_dict
  | Auto_confirmed
  | Menu
  | Prompt_order
  | Ok_then
  | Choose_option
  | Pending_confirmed nat
  | Pending_cancelled
  | Confirm_or_cancel_pending
  | Nothing_recognized
  | Order_confirmed py_dict
  | List_cleared
  | Item_not_recognized
  | Preparing_summary
  | Empty_list
  | Unknown_state

datatype callback = Send_summary | Send_reminder

record order_row =
  row_user_id :: string
  row_session_id :: string
  row_product :: string
  row_quantity :: int
  row_status :: string
  row_order_group :: string

record session =
  session_id :: string
  user_id :: string
  own_products_db :: catalog
  current_db :: catalog
  confirmed_orders :: "py_dict list"
  pending_orders :: "py_dict list"
  state :: string
  reminder_count :: int
  message_queue :: "bot_message list"
  active_timer :: "callback option"
  waiting_for_option :: bool
  store :: store
  orders_table :: "order_row list"

record response =
  success :: bool
  message :: "bot_message option"

definition new_session :: "string \<Rightarrow> string \<Rightarrow> store \<Rightarrow> order_row list \<Rightarrow> session" where
  \<comment> \<open>\<open>OrderSession.__init__\<close>, run on a store that holds the global catalog.\<close>
  "new_session sid uid h tbl =
     (let (h1, own) = deepcopy h products_db;
          (h2, cur) = deepcopy h1 products_db
      in \<lparr>session_id = sid, user_id = uid, own_products_db = own, current_db = cur,
          confirmed_orders = [], pending_orders = [], state = ''waiting_for_next'',
          reminder_count = 0, message_queue = [], active_timer = None,
          waiting_for_option = False, store = h2, orders_table = tbl\<rparr>)"

definition put_message :: "bot_message \<Rightarrow> session \<Rightarrow> session" where
  "put_message m s = s\<lparr>message_queue := message_queue s @ [m]\<rparr>"

text \<open>
  \<open>_save_final_orders\<close> inserts one row for every positive quantity and commits at the end.
  The column \<open>quantity\<close> is declared \<open>INTEGER NOT NULL\<close>, a 32-bit integer of the database:
  the insertion of a greater quantity raises (an out-of-range \<open>DataError\<close> of the driver), the
  commit is not reached and the table stays as it was.
\<close>

definition max_integer :: int where
  "max_integer = 2147483647"

definition save_final_orders ::
  "py_dict list \<Rightarrow> string \<Rightarrow> string \<Rightarrow> session \<Rightarrow> error + session" where
  "save_final_orders orders_list status order_group s =
     (let inserted = filter (\<lambda>(p, q). q > 0) (concat orders_list)
      in if list_ex (\<lambda>(p, q). q > max_integer) inserted then Inl DataError
         else Inr (s\<lparr>orders_table :=
                        orders_table s
                          @ map (\<lambda>(p, q). \<lparr>row_user_id = user_id s,
                                            row_session_id = session_id s,
                                            row_product = p, row_quantity = q,
                                            row_status = status,
                                            row_order_group = order_group\<rparr>)
                              inserted\<rparr>))"

definition has_items :: "session \<Rightarrow> bool" where
  "has_items s = list_ex (\<lambda>r. snd r > 0) (rows_of (store s) (current_db s))"

definition get_current_orders :: "session \<Rightarrow> py_dict" where
  "get_current_orders s =
     fold (\<lambda>(p, q) d. if q > 0 then dict_set d p q else d) (rows_of (store s) (current_db s)) []"

definition cancel_timer :: "session \<Rightarrow> session" where
  "cancel_timer s = s\<lparr>active_timer := None\<rparr>"

definition start_inactivity_timer :: "session \<Rightarrow> session" where
  "start_inactivity_timer s = (cancel_timer s)\<lparr>active_timer := Some Send_summary\<rparr>"

definition copy_products :: "session \<Rightarrow> session" where
  \<comment> \<open>\<open>self.current_db = deepcopy(self.products_db)\<close>\<close>
  "copy_products s =
     (let (h', cur) = deepcopy (store s) (own_products_db s)
      in s\<lparr>store := h', current_db := cur\<rparr>)"

definition start_new_conversation :: "session \<Rightarrow> session" where
  "start_new_conversation s =
     put_message Restarted
       (cancel_timer
          ((copy_products s)\<lparr>state := ''waiting_for_next'', reminder_count := 0,
                             waiting_for_option := False\<rparr>))"

fun add_to_first :: "string \<Rightarrow> int \<Rightarrow> catalog \<Rightarrow> store \<Rightarrow> store" where
  \<comment> \<open>The inner loop of \<open>add_item\<close>: the first row of that name gets the quantity.\<close>
  "add_to_first p q [] h = h"
| "add_to_first p q (a # as) h =
     (if fst (h ! a) = p then add_quantity a q h else add_to_first p q as h)"

definition add_orders :: "parsed_order list \<Rightarrow> session \<Rightarrow> session" where
  "add_orders os s =
     s\<lparr>store := fold (\<lambda>order h. add_to_first (product order) (qty order) (current_db s) h)
                  os (store s)\<rparr>"

definition add_item :: "parsed_order list \<Rightarrow> session \<Rightarrow> session" where
  "add_item os s = start_inactivity_timer ((add_orders os s)\<lparr>state := ''collecting''\<rparr>)"

definition reset_cycle :: "parsed_order list \<Rightarrow> session \<Rightarrow> session" where
  "reset_cycle os s =
     start_inactivity_timer
       ((add_orders os (cancel_timer s))\<lparr>state := ''collecting'', reminder_count := 0\<rparr>)"

definition start_reminder_cycle :: "session \<Rightarrow> session" where
  "start_reminder_cycle s =
     (cancel_timer (s\<lparr>reminder_count := 1\<rparr>))\<lparr>active_timer := Some Send_reminder\<rparr>"

definition send_summary :: "session \<Rightarrow> session" where
  "send_summary s =
     (if state s = ''collecting'' \<and> has_items s then
        (let s1 = s\<lparr>state := ''confirming'', reminder_count := 0\<rparr>
         in start_reminder_cycle (put_message (Summary (get_current_orders s1)) s1))
      else if state s = ''collecting'' then start_inactivity_timer s
      else s)"

definition reset_current :: "session \<Rightarrow> session" where
  "reset_current s =
     cancel_timer ((copy_products s)\<lparr>state := ''collecting'', reminder_count := 0\<rparr>)"

text \<open>
  \<open>_mark_as_pending\<close> reads the clock and the random generator; the last six digits of the
  time stamp and the six random characters are arguments here.  A callback returns the
  exception it raised, if any, and the session as it stands then: the insertion comes
  before the notice, the reset and the change of state, and nothing catches its exception.
\<close>

definition mark_as_pending :: "string \<Rightarrow> string \<Rightarrow> session \<Rightarrow> error option \<times> session" where
  "mark_as_pending timestamp random_part s =
     (if has_items s then
        (let auto_order = get_current_orders s;
             order_group_id = ''auto_'' @ timestamp @ ''_'' @ random_part
         in case save_final_orders [auto_order] ''auto_confirmed'' order_group_id s of
              Inl e \<Rightarrow> (Some e, s)
            | Inr s1 \<Rightarrow>
                (None, (reset_current (put_message Auto_confirmed s1))
                         \<lparr>state := ''waiting_for_next''\<rparr>))
      else (None, s))"

definition send_reminder :: "string \<Rightarrow> string \<Rightarrow> session \<Rightarrow> error option \<times> session" where
  "send_reminder timestamp random_part s =
     (if state s = ''confirming'' \<and> reminder_count s \<le> 5 then
        (let s1 = put_message (Reminder (reminder_count s) (get_current_orders s)) s
         in if reminder_count s1 = 5 then mark_as_pending timestamp random_part s1
            else (None, (cancel_timer (s1\<lparr>reminder_count := reminder_count s1 + 1\<rparr>))
                          \<lparr>active_timer := Some Send_reminder\<rparr>))
      else (None, s))"

definition fire_reminder :: "string \<Rightarrow> string \<Rightarrow> session \<Rightarrow> session" where
  \<comment> \<open>The session after a firing of the reminder timer; an exception ends the timer
      thread and leaves the session as it stands.\<close>
  "fire_reminder timestamp random_part s = snd (send_reminder timestamp random_part s)"

definition fire_all :: "(string \<times> string) list \<Rightarrow> session \<Rightarrow> session" where
  \<comment> \<open>Consecutive firings of the reminder timer, with no message between them; each
      comes with what the clock and the random generator give it.\<close>
  "fire_all trs s = fold (\<lambda>(t, r) s'. fire_reminder t r s') trs s"

function contains :: "string \<Rightarrow> string \<Rightarrow> bool" where
  \<comment> \<open>\<open>command in text\<close> on strings.\<close>
  "contains command text =
     (if starts_with text command then True
      else case text of [] \<Rightarrow> False | c # rest \<Rightarrow> contains command rest)"
  by pat_completeness auto
termination
  by (relation "measure (\<lambda>(command, text). length text)") auto

declare contains.simps [simp del]

definition cancel_commands :: "string list" where
  \<comment> \<open>The second command holds the two code points U+00C3, U+00A3 that the file stores for
      the accented letter.\<close>
  "cancel_commands = [''cancelar'', ''hoje n'' @ [CHR 0xC3, CHR 0xA3] @ ''o'', ''hoje nao'']"

definition check_cancel_command :: "string \<Rightarrow> bool" where
  "check_cancel_command message_lower = list_ex (\<lambda>command. contains command message_lower) cancel_commands"

definition any_word :: "string list \<Rightarrow> string \<Rightarrow> bool" where
  \<comment> \<open>\<open>any(word in message_lower.split() for word in words)\<close>\<close>
  "any_word words message_lower = list_ex (\<lambda>word. word \<in> set (py_split message_lower)) words"

definition nao_accent :: string where
  \<comment> \<open>The literal of the negative answer with the accented letter, as the file stores it.\<close>
  "nao_accent = ''n'' @ [CHR 0xC3, CHR 0xA3] @ ''o''"

definition reply :: "bool \<Rightarrow> bot_message option \<Rightarrow> session \<Rightarrow> (error + response) \<times> session" where
  "reply ok m s = (Inr \<lparr>success = ok, message = m\<rparr>, s)"

text \<open>
  \<open>process_message\<close> returns its result dictionary, or the exception that
  \<open>parse_order_interactive\<close> or \<open>_save_final_orders\<close> raised, and the session as it stands
  then.  A result without
  the key \<open>message\<close> has \<open>None\<close> for it, which is what the callers read.  The four blocks
  of the method that handle one state each are definitions of their own here, named after
  the comments that head them.
\<close>

definition handle_option_state :: "string \<Rightarrow> session \<Rightarrow> (error + response) \<times> session" where
  "handle_option_state message_lower s =
     (if message_lower = ''1'' then
        reply True (Some Prompt_order)
          (start_inactivity_timer (s\<lparr>waiting_for_option := False, state := ''collecting''\<rparr>))
      else if message_lower = ''2'' then
        reply True (Some Ok_then) (s\<lparr>waiting_for_option := False, state := ''waiting_for_next''\<rparr>)
      else reply False (Some Choose_option) s)"

definition handle_pending_confirmation_state ::
  "string \<Rightarrow> string \<Rightarrow> session \<Rightarrow> (error + response) \<times> session" where
  "handle_pending_confirmation_state msg message_lower s =
     (if any_word [''confirmar'', ''sim'', ''s''] message_lower then
        (if pending_orders s \<noteq> [] then
           (let s1 = s\<lparr>confirmed_orders := confirmed_orders s @ pending_orders s\<rparr>
            in case save_final_orders (pending_orders s1) ''confirmed'' ''main'' s1 of
                 Inl e \<Rightarrow> (Inl e, s1)
               | Inr s2 \<Rightarrow>
                   (let pending_count = length (pending_orders s2);
                        s3 = start_inactivity_timer
                               (s2\<lparr>pending_orders := [], state := ''collecting''\<rparr>)
                    in reply True (Some (Pending_confirmed pending_count)) s3))
         else if any_word [''cancelar'', ''nao'', nao_accent, ''n''] message_lower then
           reply True (Some Pending_cancelled)
             (start_inactivity_timer (s\<lparr>pending_orders := [], state := ''collecting''\<rparr>))
         else reply False (Some Confirm_or_cancel_pending) s)
      else
        (let s1 = start_inactivity_timer (s\<lparr>state := ''collecting''\<rparr>)
         in case parse_order_interactive msg (current_db s1) (store s1) of
              (Inl e, h) \<Rightarrow> (Inl e, s1\<lparr>store := h\<rparr>)
            | (Inr (parsed, updated_db), h) \<Rightarrow>
                reply True (if parsed \<noteq> [] then None else Some Nothing_recognized)
                  (s1\<lparr>store := h, current_db := updated_db\<rparr>)))"

definition handle_confirmation_state ::
  "string \<Rightarrow> string \<Rightarrow> session \<Rightarrow> (error + response) \<times> session" where
  "handle_confirmation_state msg message_lower s =
     (if any_word [''confirmar'', ''sim'', ''s''] message_lower then
        (let s1 = cancel_timer s;
             confirmed_order = get_current_orders s1;
             s2 = s1\<lparr>confirmed_orders := confirmed_orders s1 @ [confirmed_order]\<rparr>
         in case save_final_orders [confirmed_order] ''confirmed'' ''main'' s2 of
              Inl e \<Rightarrow> (Inl e, s2)
            | Inr s3 \<Rightarrow> reply True (Some (Order_confirmed confirmed_order)) (reset_current s3))
      else if any_word [''nao'', nao_accent, ''n''] message_lower then
        reply True (Some List_cleared) (start_inactivity_timer (reset_current (cancel_timer s)))
      else
        (case parse_order_interactive msg (current_db s) (store s) of
           (Inl e, h) \<Rightarrow> (Inl e, s\<lparr>store := h\<rparr>)
         | (Inr (parsed, updated_db), h) \<Rightarrow>
             if parsed \<noteq> [] then
               reply True None
                 (start_inactivity_timer
                    ((cancel_timer (s\<lparr>store := h, current_db := updated_db\<rparr>))
                       \<lparr>state := ''collecting'', reminder_count := 0\<rparr>))
             else reply False (Some Item_not_recognized) (s\<lparr>store := h\<rparr>)))"

definition handle_collection_state ::
  "string \<Rightarrow> string \<Rightarrow> session \<Rightarrow> (error + response) \<times> session" where
  "handle_collection_state msg message_lower s =
     (if message_lower = ''pronto'' \<or> message_lower = ''confirmar'' then
        (if has_items s then reply True (Some Preparing_summary) (send_summary s)
         else reply False (Some Empty_list) s)
      else
        (case parse_order_interactive msg (current_db s) (store s) of
           (Inl e, h) \<Rightarrow> (Inl e, s\<lparr>store := h\<rparr>)
         | (Inr (parsed, updated_db), h) \<Rightarrow>
             reply (parsed \<noteq> []) (if parsed \<noteq> [] then None else Some Nothing_recognized)
               (start_inactivity_timer (s\<lparr>store := h, current_db := updated_db\<rparr>))))"

definition process_message :: "string \<Rightarrow> session \<Rightarrow> (error + response) \<times> session" where
  "process_message msg s =
     (let message_lower = py_strip (py_lower msg) in
      if check_cancel_command message_lower then reply True None (start_new_conversation s)
      else if state s = ''waiting_for_next'' then
        reply True (Some Menu) (s\<lparr>state := ''option'', waiting_for_option := True\<rparr>)
      else if state s = ''option'' \<and> waiting_for_option s then handle_option_state message_lower s
      else if state s = ''pending_confirmation'' then
        handle_pending_confirmation_state msg message_lower s
      else if state s = ''confirming'' then handle_confirmation_state msg message_lower s
      else if state s = ''collecting'' then handle_collection_state msg message_lower s
      else reply False (Some Unknown_state) s)"

definition get_pending_message :: "session \<Rightarrow> bot_message option \<times> session" where
  "get_pending_message s =
     (case message_queue s of
        [] \<Rightarrow> (None, s)
      | m # rest \<Rightarrow> (Some m, s\<lparr>message_queue := rest\<rparr>))"

section \<open>Reference definitions for the proofs\<close>

text \<open>
  The edit distance of the prefixes of length \<open>i\<close> and \<open>j\<close>, by the recurrence that the
  table realises; \<open>lev_inv\<close> is the invariant of the nested loop: the rows above \<open>i\<close> and
  the cells of row \<open>i\<close> before column \<open>k\<close> hold the recurrence.
\<close>

fun lev_rec :: "string \<Rightarrow> string \<Rightarrow> nat \<Rightarrow> nat \<Rightarrow> nat" where
  "lev_rec a b 0 j = j"
| "lev_rec a b (Suc i) 0 = Suc i"
| "lev_rec a b (Suc i) (Suc j) =
     min (lev_rec a b i (Suc j) + 1)
         (min (lev_rec a b (Suc i) j + 1) (lev_rec a b i j + (if a ! i = b ! j then 0 else 1)))"

definition lev_inv :: "string \<Rightarrow> string \<Rightarrow> nat \<Rightarrow> nat \<Rightarrow> nat list list \<Rightarrow> bool" where
  "lev_inv a b i k dp \<longleftrightarrow>
     length dp = length a + 1 \<and>
     (\<forall>r \<le> length a. length (dp ! r) = length b + 1) \<and>
     (\<forall>r \<le> length a. dp ! r ! 0 = r) \<and>
     (\<forall>r < i. \<forall>c \<le> length b. dp ! r ! c = lev_rec a b r c) \<and>
     (i \<le> length a \<longrightarrow> (\<forall>c < k. dp ! i ! c = lev_rec a b i c))"

text \<open>Two strings of the examples, with their characters beyond ASCII.\<close>

definition limoes_message :: string where
  \<comment> \<open>The message with its accented letter, U+00F5.\<close>
  "limoes_message = ''vinte e cinco lim'' @ [CHR 0xF5] @ ''es''"

definition lemon :: string where
  \<comment> \<open>The first product of the catalog, as the file stores it.\<close>
  "lemon = ''lim'' @ [CHR 0xC3, CHR 0xA3] @ ''o''"

text \<open>Every row address of a catalog is allocated in the store.\<close>

definition valid_catalog :: "store \<Rightarrow> catalog \<Rightarrow> bool" where
  "valid_catalog h cat = list_all (\<lambda>a. a < length h) cat"

text \<open>A session as \<open>OrderSession.__init__\<close> leaves it, on the store of the program's catalog.\<close>

definition fresh_session :: session where
  "fresh_session = new_session ''sid'' ''uid'' products_db_rows []"

text \<open>
  Two sessions reached through the interface: the first message, the menu choice 1, one
  order message, and the firing of the inactivity timer.  The first holds two products
  and has just entered the confirmation cycle; the second holds a quantity beyond the
  range of the column \<open>quantity\<close>.
\<close>

definition after_messages :: "string list \<Rightarrow> session \<Rightarrow> session" where
  "after_messages msgs s = fold (\<lambda>m s'. snd (process_message m s')) msgs s"

definition confirming_session :: session where
  "confirming_session =
     send_summary (after_messages [''oi'', ''1'', ''dois mangas e tres queijos''] fresh_session)"

definition big_order_session :: session where
  "big_order_session =
     send_summary (after_messages [''oi'', ''1'', ''3000000000 mangas''] fresh_session)"

text \<open>The invariant of the extraction loop: positions increase and lie before \<open>i\<close>, values are not negative.\<close>

definition numbers_ok :: "nat \<Rightarrow> (nat \<times> int) list \<Rightarrow> bool" where
  "numbers_ok i numbers \<longleftrightarrow>
     sorted_wrt (<) (map fst numbers) \<and> list_all (\<lambda>x. fst x < i \<and> 0 \<le> snd x) numbers"

section \<open>The table computes the edit distance\<close>

lemma lev_rec_col0: "lev_rec a b i 0 = i"
  by (cases i) simp_all

lemma lev_rec_sym: "lev_rec a b i j = lev_rec b a j i"
proof (induction a b i j rule: lev_rec.induct)
  case (1 a b j)
  show ?case by (simp add: lev_rec_col0)
next
  case (2 a b i)
  show ?case by simp
next
  case (3 a b i j)
  then show ?case by (simp add: min.commute min.left_commute eq_commute)
qed

lemma fold_upt_Suc: "a \<le> k \<Longrightarrow> fold f [a..<Suc k] s = f k (fold f [a..<k] s)"
  by simp

lemma init_rows:
  "k \<le> length dp \<Longrightarrow>
   length (fold (\<lambda>i dp. dp[i := (dp ! i)[0 := i]]) [0..<k] dp) = length dp \<and>
   (\<forall>r < length dp. fold (\<lambda>i dp. dp[i := (dp ! i)[0 := i]]) [0..<k] dp ! r
       = (if r < k then (dp ! r)[0 := r] else dp ! r))"
proof (induction k)
  case 0
  show ?case by simp
next
  case (Suc k)
  then show ?case by (simp add: nth_list_update less_Suc_eq)
qed

lemma init_cols:
  "0 < length dp \<Longrightarrow> k \<le> length (dp ! 0) \<Longrightarrow>
   length (fold (\<lambda>j dp. dp[0 := (dp ! 0)[j := j]]) [0..<k] dp) = length dp \<and>
   (\<forall>r < length dp. 0 < r \<longrightarrow> fold (\<lambda>j dp. dp[0 := (dp ! 0)[j := j]]) [0..<k] dp ! r = dp ! r) \<and>
   length (fold (\<lambda>j dp. dp[0 := (dp ! 0)[j := j]]) [0..<k] dp ! 0) = length (dp ! 0) \<and>
   (\<forall>c < length (dp ! 0). fold (\<lambda>j dp. dp[0 := (dp ! 0)[j := j]]) [0..<k] dp ! 0 ! c
       = (if c < k then c else dp ! 0 ! c))"
proof (induction k)
  case 0
  show ?case by simp
next
  case (Suc k)
  then show ?case by (simp add: nth_list_update less_Suc_eq)
qed

lemma lev_init_props:
  "length (lev_init m n) = m + 1 \<and>
   (\<forall>i \<le> m. length (lev_init m n ! i) = n + 1 \<and>
      (\<forall>j \<le> n. lev_init m n ! i ! j = (if i = 0 then j else if j = 0 then i else 0)))"
proof -
  define dp0 :: "nat list list" where "dp0 = replicate (m + 1) (replicate (n + 1) 0)"
  define dp1 where "dp1 = fold (\<lambda>i dp. dp[i := (dp ! i)[0 := i]]) [0..<m + 1] dp0"
  define dp2 where "dp2 = fold (\<lambda>j dp. dp[0 := (dp ! 0)[j := j]]) [0..<n + 1] dp1"
  have e: "lev_init m n = dp2"
    by (simp only: lev_init_def Let_def dp0_def dp1_def dp2_def)
  have l0: "length dp0 = m + 1" by (simp add: dp0_def)
  have r0: "\<forall>r < m + 1. dp0 ! r = replicate (n + 1) 0"
    by (simp add: dp0_def del: replicate.simps replicate_Suc)
  have p1: "length dp1 = m + 1 \<and> (\<forall>r < m + 1. dp1 ! r = (replicate (n + 1) 0)[0 := r])"
    using init_rows [of "m + 1" dp0] l0 r0 unfolding dp1_def by auto
  then have l1: "length dp1 = m + 1" and r1: "\<forall>r < m + 1. dp1 ! r = (replicate (n + 1) 0)[0 := r]"
    by blast+
  have len10: "length (dp1 ! 0) = n + 1" using r1 by simp
  have p2: "length dp2 = m + 1 \<and> (\<forall>r < m + 1. 0 < r \<longrightarrow> dp2 ! r = dp1 ! r) \<and>
        length (dp2 ! 0) = n + 1 \<and> (\<forall>c < n + 1. dp2 ! 0 ! c = c)"
    using init_cols [of dp1 "n + 1"] l1 len10 unfolding dp2_def by auto
  show ?thesis
    unfolding e
  proof (intro conjI allI impI)
    show "length dp2 = m + 1" using p2 by blast
  next
    fix i assume "i \<le> m"
    show "length (dp2 ! i) = n + 1"
    proof (cases "i = 0")
      case True then show ?thesis using p2 by simp
    next
      case False
      then have "dp2 ! i = dp1 ! i" using p2 \<open>i \<le> m\<close> by simp
      then show ?thesis using r1 \<open>i \<le> m\<close> by simp
    qed
  next
    fix i j assume "i \<le> m" "j \<le> n"
    show "dp2 ! i ! j = (if i = 0 then j else if j = 0 then i else 0)"
    proof (cases "i = 0")
      case True then show ?thesis using p2 \<open>j \<le> n\<close> by simp
    next
      case False
      then have "dp2 ! i = (replicate (n + 1) 0)[0 := i]" using p2 r1 \<open>i \<le> m\<close> by simp
      then show ?thesis using False \<open>j \<le> n\<close> by (cases j) simp_all
    qed
  qed
qed


lemma lev_inv_init: "lev_inv a b 1 1 (lev_init (length a) (length b))"
  using lev_init_props [of "length a" "length b"] by (simp add: lev_inv_def)

lemma lev_inv_cell:
  assumes inv: "lev_inv a b i k dp" and i: "1 \<le> i" "i \<le> length a" and k: "1 \<le> k" "k \<le> length b"
  shows "lev_inv a b i (Suc k) (lev_cell a b i k dp)"
proof -
  obtain i' k' where ik: "i = Suc i'" "k = Suc k'"
    using i(1) k(1) by (cases i; cases k) auto
  have len: "length dp = length a + 1" and rl: "\<forall>r \<le> length a. length (dp ! r) = length b + 1"
    and c0: "\<forall>r \<le> length a. dp ! r ! 0 = r"
    and above: "\<forall>r < i. \<forall>c \<le> length b. dp ! r ! c = lev_rec a b r c"
    and left: "\<forall>c < k. dp ! i ! c = lev_rec a b i c"
    using inv i by (auto simp: lev_inv_def)
  define v where "v = min (dp ! (i - 1) ! k + 1) (min (dp ! i ! (k - 1) + 1)
             (dp ! (i - 1) ! (k - 1) + (if a ! (i - 1) = b ! (k - 1) then 0 else 1)))"
  have a1: "dp ! i' ! Suc k' = lev_rec a b i' (Suc k')" using above ik k by simp
  have a2: "dp ! i' ! k' = lev_rec a b i' k'" using above ik k by simp
  have a3: "dp ! Suc i' ! k' = lev_rec a b (Suc i') k'" using left ik by simp
  have v: "v = lev_rec a b i k"
    unfolding v_def ik by (simp add: a1 a2 a3)
  define dp' where "dp' = dp[i := (dp ! i)[k := v]]"
  have e: "lev_cell a b i k dp = dp'"
    by (simp add: lev_cell_def Let_def dp'_def v_def)
  have ilen: "i < length dp" using len i by simp
  have klen: "k < length (dp ! i)" using rl i k by simp
  have row_i: "dp' ! i = (dp ! i)[k := v]" using ilen by (simp add: dp'_def)
  have row_o: "\<And>r. r \<noteq> i \<Longrightarrow> dp' ! r = dp ! r" by (simp add: dp'_def)
  have g1: "length dp' = length a + 1" using len by (simp add: dp'_def)
  have g2: "\<forall>r \<le> length a. length (dp' ! r) = length b + 1"
  proof (intro allI impI)
    fix r assume "r \<le> length a"
    then show "length (dp' ! r) = length b + 1"
      using rl row_i row_o [of r] by (cases "r = i") simp_all
  qed
  have g3: "\<forall>r \<le> length a. dp' ! r ! 0 = r"
  proof (intro allI impI)
    fix r assume "r \<le> length a"
    then show "dp' ! r ! 0 = r"
      using c0 row_i row_o [of r] k by (cases "r = i") simp_all
  qed
  have g4: "\<forall>r < i. \<forall>c \<le> length b. dp' ! r ! c = lev_rec a b r c"
    using above row_o by simp
  have g5: "\<forall>c < Suc k. dp' ! i ! c = lev_rec a b i c"
  proof (intro allI impI)
    fix c assume "c < Suc k"
    then show "dp' ! i ! c = lev_rec a b i c"
      using left row_i klen v by (cases "c = k") simp_all
  qed
  show ?thesis
    unfolding e lev_inv_def using g1 g2 g3 g4 g5 by blast
qed

lemma lev_inv_fold_cells:
  assumes "lev_inv a b i 1 dp" "1 \<le> i" "i \<le> length a"
  shows "1 \<le> k \<Longrightarrow> k \<le> length b + 1 \<Longrightarrow> lev_inv a b i k (fold (lev_cell a b i) [1..<k] dp)"
proof (induction k)
  case 0
  then show ?case by simp
next
  case (Suc k)
  show ?case
  proof (cases "k = 0")
    case True
    then show ?thesis using assms(1) by simp
  next
    case False
    then have "lev_inv a b i k (fold (lev_cell a b i) [1..<k] dp)"
      using Suc by simp
    then have "lev_inv a b i (Suc k) (lev_cell a b i k (fold (lev_cell a b i) [1..<k] dp))"
      using lev_inv_cell assms(2,3) False Suc.prems by simp
    then show ?thesis using False by (simp add: fold_upt_Suc)
  qed
qed

lemma lev_inv_row:
  assumes "lev_inv a b i 1 dp" "1 \<le> i" "i \<le> length a"
  shows "lev_inv a b (Suc i) 1 (lev_row a b i dp)"
proof -
  define dp' where "dp' = lev_row a b i dp"
  have full: "lev_inv a b i (length b + 1) dp'"
    unfolding dp'_def lev_row_def using lev_inv_fold_cells [OF assms, of "length b + 1"] by simp
  have c0: "\<forall>r \<le> length a. dp' ! r ! 0 = r"
    and above: "\<forall>r < i. \<forall>c \<le> length b. dp' ! r ! c = lev_rec a b r c"
    and row: "\<forall>c < length b + 1. dp' ! i ! c = lev_rec a b i c"
    using full assms(3) unfolding lev_inv_def by blast+
  have g4: "\<forall>r < Suc i. \<forall>c \<le> length b. dp' ! r ! c = lev_rec a b r c"
  proof (intro allI impI)
    fix r c assume "r < Suc i" "c \<le> length b"
    then show "dp' ! r ! c = lev_rec a b r c"
      using above row by (cases "r = i") simp_all
  qed
  have g5: "Suc i \<le> length a \<longrightarrow> (\<forall>c < 1. dp' ! Suc i ! c = lev_rec a b (Suc i) c)"
    using c0 by simp
  show ?thesis
    using full g4 g5 unfolding lev_inv_def dp'_def [symmetric] by blast
qed

lemma lev_inv_fold_rows:
  "1 \<le> k \<Longrightarrow> k \<le> length a + 1 \<Longrightarrow>
   lev_inv a b k 1 (fold (lev_row a b) [1..<k] (lev_init (length a) (length b)))"
proof (induction k)
  case 0
  then show ?case by simp
next
  case (Suc k)
  show ?case
  proof (cases "k = 0")
    case True
    then show ?thesis using lev_inv_init by simp
  next
    case False
    then have "lev_inv a b k 1 (fold (lev_row a b) [1..<k] (lev_init (length a) (length b)))"
      using Suc by simp
    then have "lev_inv a b (Suc k) 1
        (lev_row a b k (fold (lev_row a b) [1..<k] (lev_init (length a) (length b))))"
      using lev_inv_row False Suc.prems by simp
    then show ?thesis using False by (simp add: fold_upt_Suc)
  qed
qed

lemma lev_table_nth:
  "i \<le> length a \<Longrightarrow> j \<le> length b \<Longrightarrow> lev_table a b ! i ! j = lev_rec a b i j"
  using lev_inv_fold_rows [of "length a + 1" a b]
  unfolding lev_table_def lev_inv_def by (simp add: less_Suc_eq_le)

lemma levenshtein_distance_rec: "levenshtein_distance a b = lev_rec a b (length a) (length b)"
  by (simp add: levenshtein_distance_def Let_def lev_table_nth lev_rec_col0)

lemma levenshtein_distance_sym: "levenshtein_distance a b = levenshtein_distance b a"
  by (simp add: levenshtein_distance_rec lev_rec_sym)

lemma lev_rec_refl: "lev_rec a a i i = 0"
  by (induction i) simp_all

lemma levenshtein_distance_refl: "levenshtein_distance a a = 0"
  by (simp add: levenshtein_distance_rec lev_rec_refl)

section \<open>Equations for evaluation\<close>

text \<open>
  The character tables are defined by ranges of code points.  For evaluation each gets an
  equation that decides it on the bits of the character, proved from the definition on
  all 256 characters; the merged dictionary and the sorted key list get their values.
\<close>

lemma py_lower_char_code [code]:
  "py_lower_char (Char b0 b1 b2 b3 b4 b5 b6 b7) =
     (if b7
      then (if b6
        then (if b5
          then Char b0 b1 b2 b3 b4 b5 b6 b7
          else (if b4
            then (if b2
              then (if b1
                then (if b0
                  then Char b0 b1 b2 b3 b4 b5 b6 b7
                  else Char b0 b1 b2 b3 b4 True b6 b7)
                else Char b0 b1 b2 b3 b4 True b6 b7)
              else Char b0 b1 b2 b3 b4 True b6 b7)
            else Char b0 b1 b2 b3 b4 True b6 b7))
        else Char b0 b1 b2 b3 b4 b5 b6 b7)
      else (if b6
        then (if b5
          then Char b0 b1 b2 b3 b4 b5 b6 b7
          else (if b4
            then (if b3
              then (if b2
                then Char b0 b1 b2 b3 b4 b5 b6 b7
                else (if b1
                  then (if b0
                    then Char b0 b1 b2 b3 b4 b5 b6 b7
                    else Char b0 b1 b2 b3 b4 True b6 b7)
                  else Char b0 b1 b2 b3 b4 True b6 b7))
              else Char b0 b1 b2 b3 b4 True b6 b7)
            else (if b3
              then Char b0 b1 b2 b3 b4 True b6 b7
              else (if b2
                then Char b0 b1 b2 b3 b4 True b6 b7
                else (if b1
                  then Char b0 b1 b2 b3 b4 True b6 b7
                  else (if b0
                    then Char b0 b1 b2 b3 b4 True b6 b7
                    else Char b0 b1 b2 b3 b4 b5 b6 b7))))))
        else Char b0 b1 b2 b3 b4 b5 b6 b7))"
  by (cases b0; cases b1; cases b2; cases b3; cases b4; cases b5; cases b6; cases b7;
      simp add: py_lower_char_def code_point_def char_of_eq_iff)

lemma strip_accent_code [code]:
  "strip_accent (Char b0 b1 b2 b3 b4 b5 b6 b7) =
     (if b7
      then (if b6
        then (if b5
          then (if b4
            then (if b3
              then (if b2
                then (if b1
                  then (if b0
                    then CHR ''y''
                    else Char b0 b1 b2 b3 b4 b5 b6 b7)
                  else (if b0
                    then CHR ''y''
                    else CHR ''u''))
                else (if b1
                  then CHR ''u''
                  else (if b0
                    then CHR ''u''
                    else Char b0 b1 b2 b3 b4 b5 b6 b7)))
              else (if b2
                then (if b1
                  then (if b0
                    then Char b0 b1 b2 b3 b4 b5 b6 b7
                    else CHR ''o'')
                  else CHR ''o'')
                else (if b1
                  then CHR ''o''
                  else (if b0
                    then CHR ''n''
                    else Char b0 b1 b2 b3 b4 b5 b6 b7))))
            else (if b3
              then (if b2
                then CHR ''i''
                else CHR ''e'')
              else (if b2
                then (if b1
                  then (if b0
                    then CHR ''c''
                    else Char b0 b1 b2 b3 b4 b5 b6 b7)
                  else CHR ''a'')
                else CHR ''a'')))
          else (if b4
            then (if b3
              then (if b2
                then (if b1
                  then Char b0 b1 b2 b3 b4 b5 b6 b7
                  else (if b0
                    then CHR ''Y''
                    else CHR ''U''))
                else (if b1
                  then CHR ''U''
                  else (if b0
                    then CHR ''U''
                    else Char b0 b1 b2 b3 b4 b5 b6 b7)))
              else (if b2
                then (if b1
                  then (if b0
                    then Char b0 b1 b2 b3 b4 b5 b6 b7
                    else CHR ''O'')
                  else CHR ''O'')
                else (if b1
                  then CHR ''O''
                  else (if b0
                    then CHR ''N''
                    else Char b0 b1 b2 b3 b4 b5 b6 b7))))
            else (if b3
              then (if b2
                then CHR ''I''
                else CHR ''E'')
              else (if b2
                then (if b1
                  then (if b0
                    then CHR ''C''
                    else Char b0 b1 b2 b3 b4 b5 b6 b7)
                  else CHR ''A'')
                else CHR ''A''))))
        else Char b0 b1 b2 b3 b4 b5 b6 b7)
      else Char b0 b1 b2 b3 b4 b5 b6 b7)"
  by (cases b0; cases b1; cases b2; cases b3; cases b4; cases b5; cases b6; cases b7;
      simp add: strip_accent_def code_point_def)

lemma is_space_code [code]:
  "is_space (Char b0 b1 b2 b3 b4 b5 b6 b7) =
     (if b7
      then (if b6
        then False
        else (if b5
          then (if b4
            then False
            else (if b3
              then False
              else (if b2
                then False
                else (if b1
                  then False
                  else (if b0
                    then False
                    else True)))))
          else (if b4
            then False
            else (if b3
              then False
              else (if b2
                then (if b1
                  then False
                  else (if b0
                    then True
                    else False))
                else False)))))
      else (if b6
        then False
        else (if b5
          then (if b4
            then False
            else (if b3
              then False
              else (if b2
                then False
                else (if b1
                  then False
                  else (if b0
                    then False
                    else True)))))
          else (if b4
            then (if b3
              then (if b2
                then True
                else False)
              else False)
            else (if b3
              then (if b2
                then (if b1
                  then False
                  else True)
                else (if b1
                  then True
                  else (if b0
                    then True
                    else False)))
              else False)))))"
  by (cases b0; cases b1; cases b2; cases b3; cases b4; cases b5; cases b6; cases b7;
      simp add: is_space_def code_point_def)

lemma is_decimal_code [code]:
  "is_decimal (Char b0 b1 b2 b3 b4 b5 b6 b7) =
     (if b7
      then False
      else (if b6
        then False
        else (if b5
          then (if b4
            then (if b3
              then (if b2
                then False
                else (if b1
                  then False
                  else True))
              else True)
            else False)
          else False)))"
  by (cases b0; cases b1; cases b2; cases b3; cases b4; cases b5; cases b6; cases b7;
      simp add: is_decimal_def code_point_def)

lemma is_ascii_letter_code [code]:
  "is_ascii_letter (Char b0 b1 b2 b3 b4 b5 b6 b7) =
     (if b7
      then False
      else (if b6
        then (if b4
          then (if b3
            then (if b2
              then False
              else (if b1
                then (if b0
                  then False
                  else True)
                else True))
            else True)
          else (if b3
            then True
            else (if b2
              then True
              else (if b1
                then True
                else (if b0
                  then True
                  else False)))))
        else False))"
  by (cases b0; cases b1; cases b2; cases b3; cases b4; cases b5; cases b6; cases b7;
      simp add: is_ascii_letter_def code_point_def)

lemma is_word_char_code [code]:
  "is_word_char (Char b0 b1 b2 b3 b4 b5 b6 b7) =
     (if b7
      then (if b6
        then (if b4
          then (if b3
            then True
            else (if b2
              then (if b1
                then (if b0
                  then False
                  else True)
                else True)
              else True))
          else True)
        else (if b5
          then (if b4
            then (if b3
              then (if b2
                then (if b1
                  then (if b0
                    then False
                    else True)
                  else True)
                else (if b1
                  then (if b0
                    then False
                    else True)
                  else (if b0
                    then True
                    else False)))
              else (if b2
                then (if b1
                  then False
                  else (if b0
                    then True
                    else False))
                else (if b1
                  then True
                  else False)))
            else (if b3
              then (if b2
                then False
                else (if b1
                  then (if b0
                    then False
                    else True)
                  else False))
              else False))
          else False))
      else (if b6
        then (if b5
          then (if b4
            then (if b3
              then (if b2
                then False
                else (if b1
                  then (if b0
                    then False
                    else True)
                  else True))
              else True)
            else (if b3
              then True
              else (if b2
                then True
                else (if b1
                  then True
                  else (if b0
                    then True
                    else False)))))
          else (if b4
            then (if b3
              then (if b2
                then (if b1
                  then (if b0
                    then True
                    else False)
                  else False)
                else (if b1
                  then (if b0
                    then False
                    else True)
                  else True))
              else True)
            else (if b3
              then True
              else (if b2
                then True
                else (if b1
                  then True
                  else (if b0
                    then True
                    else False))))))
        else (if b5
          then (if b4
            then (if b3
              then (if b2
                then False
                else (if b1
                  then False
                  else True))
              else True)
            else False)
          else False)))"
  by (cases b0; cases b1; cases b2; cases b3; cases b4; cases b5; cases b6; cases b7;
      simp add: is_word_char_def code_point_def)

lemma isdigit_char_code [code]:
  "isdigit_char (Char b0 b1 b2 b3 b4 b5 b6 b7) =
     (if b7
      then (if b6
        then False
        else (if b5
          then (if b4
            then (if b3
              then (if b2
                then False
                else (if b1
                  then False
                  else (if b0
                    then True
                    else False)))
              else (if b2
                then False
                else (if b1
                  then True
                  else False)))
            else False)
          else False))
      else (if b6
        then False
        else (if b5
          then (if b4
            then (if b3
              then (if b2
                then False
                else (if b1
                  then False
                  else True))
              else True)
            else False)
          else False)))"
  by (cases b0; cases b1; cases b2; cases b3; cases b4; cases b5; cases b6; cases b7;
      simp add: isdigit_char_def code_point_def)


lemma starts_with_code [code]:
  "starts_with s [] = True"
  "starts_with [] (x # xs) = False"
  "starts_with (y # ys) (x # xs) = (if y = x then starts_with ys xs else False)"
  by (auto simp: starts_with_def)

lemma word2num_all_code [code]:
  "word2num_all =
     [(''0'', 0), (''1'', 1), (''2'', 2), (''3'', 3), (''4'', 4), (''5'', 5), (''6'', 6),
      (''7'', 7), (''8'', 8), (''9'', 9),
      (''zero'', 0), (''um'', 1), (''uma'', 1), (''dois'', 2), (''duas'', 2), (''dos'', 2),
      (''tres'', 3), (''treis'', 3),
      (''quatro'', 4), (''quarto'', 4), (''cinco'', 5), (''cnico'', 5), (''seis'', 6),
      (''ses'', 6), (''sete'', 7), (''oito'', 8), (''nove'', 9), (''nov'', 9),
      (''dez'', 10), (''onze'', 11), (''doze'', 12), (''treze'', 13), (''quatorze'', 14),
      (''catorze'', 14), (''quinze'', 15), (''dezesseis'', 16), (''dezessete'', 17),
      (''dezoito'', 18), (''dezenove'', 19),
      (''vinte'', 20), (''trinta'', 30), (''quarenta'', 40), (''cinquenta'', 50),
      (''sessenta'', 60), (''setenta'', 70), (''oitenta'', 80), (''noventa'', 90),
      (''cem'', 100), (''cento'', 100), (''duzentos'', 200), (''trezentos'', 300),
      (''quatrocentos'', 400), (''quinhentos'', 500), (''seiscentos'', 600),
      (''setecentos'', 700), (''oitocentos'', 800), (''novecentos'', 900)]"
  by (simp add: word2num_all_def units_def teens_def tens_def hundreds_def)

lemma number_keys_code [code]:
  "number_keys =
     [''quatrocentos'', ''quinhentos'', ''seiscentos'', ''setecentos'', ''oitocentos'',
      ''novecentos'', ''dezesseis'', ''dezessete'', ''cinquenta'', ''trezentos'', ''quatorze'',
      ''dezenove'', ''quarenta'', ''sessenta'', ''duzentos'', ''catorze'', ''dezoito'',
      ''setenta'', ''oitenta'', ''noventa'', ''quatro'', ''quarto'', ''quinze'', ''trinta'',
      ''treis'', ''cinco'', ''cnico'', ''treze'', ''vinte'', ''cento'', ''zero'', ''dois'',
      ''duas'', ''tres'', ''seis'', ''sete'', ''oito'', ''nove'', ''onze'', ''doze'', ''uma'',
      ''dos'', ''ses'', ''nov'', ''dez'', ''cem'', ''um'']
     @ map (\<lambda>c. [c]) ''0123456789''"
  by code_simp

section \<open>Evaluated messages\<close>

text \<open>
  The results of \<open>parse_order_interactive\<close> on the messages that the claims name, each
  evaluated once.  The program's catalog occupies the addresses 0 to 17 of the store; the
  working copy that a call allocates there occupies 18 to 35.
\<close>

lemma parse_mangas_queijos_small:
  "parse_order_interactive ''dois mangas e tres queijos'' [0, 1] [(''manga'', 0), (''queijo'', 0)]
     = (Inr ([\<lparr>product = ''manga'', qty = 2, score = 8333 / 100\<rparr>,
              \<lparr>product = ''queijo'', qty = 3, score = 8571 / 100\<rparr>], [2, 3]),
        [(''manga'', 0), (''queijo'', 0), (''manga'', 2), (''queijo'', 3)])"
  by code_simp

lemma parse_mangas_queijos_program:
  "parse_order_interactive ''dois mangas e tres queijos'' products_db products_db_rows
     = (Inr ([\<lparr>product = ''manga'', qty = 2, score = 8333 / 100\<rparr>,
              \<lparr>product = ''queijo'', qty = 3, score = 8571 / 100\<rparr>], [18..<36]),
        products_db_rows @ products_db_rows[10 := (''manga'', 2), 17 := (''queijo'', 3)])"
  by code_simp

lemma parse_limoes:
  "parse_order_interactive limoes_message products_db products_db_rows
     = (Inr ([], [18..<36]), products_db_rows @ products_db_rows)"
  by code_simp

lemma tokenize_limoes: "tokenize limoes_message = [''vinte'', ''e'', ''cinco'', ''limoes'']"
  by code_simp

lemma extract_limoes:
  "extract_numbers_and_positions [''vinte'', ''e'', ''cinco'', ''limoes''] = Inr [(0, 25)]"
  by code_simp

lemma best_limoes:
  "find_best_product ''limoes'' (zip (map fst products_db_rows) [0..<18]) = (50, Some (lemon, 0))"
  by code_simp

lemma parse_0_manga:
  "parse_order_interactive ''0 manga'' products_db products_db_rows
     = (Inr ([\<lparr>product = ''manga'', qty = 0, score = 100\<rparr>], [18..<36]),
        products_db_rows @ products_db_rows)"
  by code_simp

lemma parse_zero_manga:
  "parse_order_interactive ''zero manga'' products_db products_db_rows
     = (Inr ([\<lparr>product = ''manga'', qty = 1, score = 100\<rparr>], [18..<36]),
        products_db_rows @ products_db_rows[10 := (''manga'', 1)])"
  by code_simp

lemma parse_2_manga_queijo:
  "parse_order_interactive ''2 manga queijo'' products_db products_db_rows
     = (Inr ([\<lparr>product = ''manga'', qty = 2, score = 100\<rparr>,
              \<lparr>product = ''queijo'', qty = 2, score = 100\<rparr>], [18..<36]),
        products_db_rows @ products_db_rows[10 := (''manga'', 2), 17 := (''queijo'', 2)])"
  by code_simp

section \<open>The digit 0 and the word zero before a product token\<close>

lemma isdigit_0: "isdigit ''0''" by code_simp
lemma py_int_0: "py_int ''0'' = Inr 0" by code_simp
lemma zero_word: "in_dict ''zero'' word2num_all" "\<not> isdigit ''zero''" by code_simp+
lemma zero_run: "number_run [''zero'', p] 0 = (1, None)"
  by (simp add: number_run_def combine_number_words.simps parse_number_words_def
      in_dict_def dict_get_def hundreds_def tens_def teens_def units_def)

lemma extract_0_p:
  "\<not> is_number_token p \<Longrightarrow> extract_numbers_and_positions [''0'', p] = Inr [(0, 0)]"
  by (simp add: extract_numbers_and_positions_def extract_loop.simps [of _ 0]
      extract_loop.simps [of _ "Suc 0"] extract_loop.simps [of _ "Suc (Suc 0)"] isdigit_0 py_int_0 is_number_token_def)

lemma extract_zero_p:
  "\<not> is_number_token p \<Longrightarrow> extract_numbers_and_positions [''zero'', p] = Inr []"
  by (simp add: extract_numbers_and_positions_def extract_loop.simps [of _ 0]
      extract_loop.simps [of _ "Suc 0"] extract_loop.simps [of _ "Suc (Suc 0)"] zero_word zero_run is_number_token_def)

lemma assoc_0_p: "find_associated_number 1 [''0'', p] [(0, 0)] = (0, Some 0)"
  by (simp add: find_associated_number_def is_number_token_def isdigit_0 number_at_def)

lemma assoc_zero_p: "find_associated_number 1 [''zero'', p] [] = (1, None)"
  by (simp add: find_associated_number_def)

lemma tokenize_0_manga: "tokenize ''0 manga'' = [''0'', ''manga'']"
  by code_simp

lemma tokenize_zero_manga: "tokenize ''zero manga'' = [''zero'', ''manga'']"
  by code_simp

lemma manga_no_number: "\<not> is_number_token ''manga''"
  by code_simp

section \<open>Copies are fresh and equal\<close>

lemma deepcopy_rows_props:
  assumes "list_all (\<lambda>a. a < length h0) cat"
    and "length h0 \<le> length h"
    and "\<forall>a < length h0. h ! a = h0 ! a"
    and "\<forall>a a'. map_of memo a = Some a' \<longrightarrow> length h0 \<le> a' \<and> a' < length h \<and> h ! a' = h0 ! a"
    and "deepcopy_rows h cat memo = (h', out)"
  shows "length h \<le> length h' \<and> (\<forall>a < length h. h' ! a = h ! a) \<and> length out = length cat \<and>
         (\<forall>i < length cat. length h0 \<le> out ! i \<and> out ! i < length h' \<and> h' ! (out ! i) = h0 ! (cat ! i))"
  using assms
proof (induction cat arbitrary: h memo h' out)
  case Nil
  then show ?case by simp
next
  case (Cons a cat)
  have a: "a < length h0" and cat: "list_all (\<lambda>a. a < length h0) cat"
    using Cons.prems(1) by simp_all
  show ?case
  proof (cases "map_of memo a")
    case (Some a')
    obtain h1 out1 where r: "deepcopy_rows h cat memo = (h1, out1)"
      by (cases "deepcopy_rows h cat memo")
    have e: "h' = h1" "out = a' # out1"
      using Cons.prems(5) Some r by simp_all
    have IH: "length h \<le> length h1 \<and> (\<forall>a < length h. h1 ! a = h ! a) \<and> length out1 = length cat \<and>
         (\<forall>i < length cat. length h0 \<le> out1 ! i \<and> out1 ! i < length h1 \<and> h1 ! (out1 ! i) = h0 ! (cat ! i))"
      using Cons.IH [OF cat Cons.prems(2) Cons.prems(3) Cons.prems(4) r] .
    have m: "length h0 \<le> a' \<and> a' < length h \<and> h ! a' = h0 ! a"
      using Cons.prems(4) Some by blast
    show ?thesis
      unfolding e using IH m by (auto simp: nth_Cons split: nat.splits)
  next
    case None
    let ?h2 = "h @ [h ! a]"
    let ?memo2 = "(a, length h) # memo"
    obtain h1 out1 where r: "deepcopy_rows ?h2 cat ?memo2 = (h1, out1)"
      by (cases "deepcopy_rows ?h2 cat ?memo2")
    have e: "h' = h1" "out = length h # out1"
      using Cons.prems(5) None r by simp_all
    have p2: "length h0 \<le> length ?h2" using Cons.prems(2) by simp
    have p3: "\<forall>b < length h0. ?h2 ! b = h0 ! b"
      using Cons.prems(2,3) by (simp add: nth_append)
    have ha: "h ! a = h0 ! a" using Cons.prems(3) a by simp
    have p4: "\<forall>b b'. map_of ?memo2 b = Some b' \<longrightarrow>
                length h0 \<le> b' \<and> b' < length ?h2 \<and> ?h2 ! b' = h0 ! b"
    proof (intro allI impI)
      fix b b' assume m: "map_of ?memo2 b = Some b'"
      show "length h0 \<le> b' \<and> b' < length ?h2 \<and> ?h2 ! b' = h0 ! b"
      proof (cases "b = a")
        case True
        then have "b' = length h" using m by simp
        then show ?thesis using True Cons.prems(2) ha by simp
      next
        case False
        then have "map_of memo b = Some b'" using m by simp
        then have "length h0 \<le> b' \<and> b' < length h \<and> h ! b' = h0 ! b"
          using Cons.prems(4) by blast
        then show ?thesis by (simp add: nth_append)
      qed
    qed
    have IH: "length ?h2 \<le> length h1 \<and> (\<forall>a < length ?h2. h1 ! a = ?h2 ! a) \<and> length out1 = length cat \<and>
         (\<forall>i < length cat. length h0 \<le> out1 ! i \<and> out1 ! i < length h1 \<and> h1 ! (out1 ! i) = h0 ! (cat ! i))"
      using Cons.IH [OF cat p2 p3 p4 r] .
    have g1: "length h \<le> length h1" using IH by simp
    have g2: "\<forall>b < length h. h1 ! b = h ! b"
    proof (intro allI impI)
      fix b assume "b < length h"
      then have "h1 ! b = ?h2 ! b" using IH by simp
      then show "h1 ! b = h ! b" using \<open>b < length h\<close> by (simp add: nth_append)
    qed
    have g3: "h1 ! length h = h0 ! a"
    proof -
      have "h1 ! length h = ?h2 ! length h" using IH by simp
      then show ?thesis using ha by simp
    qed
    have g4: "length h < length h1" using IH by simp
    show ?thesis
      unfolding e using IH g1 g2 g3 g4 Cons.prems(2)
      by (auto simp: nth_Cons split: nat.splits)
  qed
qed

lemma deepcopy_props:
  assumes "valid_catalog h cat" and "deepcopy h cat = (h', out)"
  shows "length h \<le> length h'" and "\<forall>a < length h. h' ! a = h ! a"
    and "length out = length cat"
    and "\<forall>i < length cat. length h \<le> out ! i \<and> out ! i < length h'"
    and "rows_of h' out = rows_of h cat"
proof -
  have p: "length h \<le> length h' \<and> (\<forall>a < length h. h' ! a = h ! a) \<and> length out = length cat \<and>
         (\<forall>i < length cat. length h \<le> out ! i \<and> out ! i < length h' \<and> h' ! (out ! i) = h ! (cat ! i))"
    using deepcopy_rows_props [of h cat h "[]" h' out] assms
    by (simp add: valid_catalog_def deepcopy_def)
  show "length h \<le> length h'" "\<forall>a < length h. h' ! a = h ! a" "length out = length cat"
    "\<forall>i < length cat. length h \<le> out ! i \<and> out ! i < length h'"
    using p by blast+
  show "rows_of h' out = rows_of h cat"
    using p by (simp add: rows_of_def list_eq_iff_nth_eq)
qed

section \<open>Session operations, field by field\<close>

lemma copy_products_fields [simp]:
  "state (copy_products s) = state s"
  "reminder_count (copy_products s) = reminder_count s"
  "message_queue (copy_products s) = message_queue s"
  "active_timer (copy_products s) = active_timer s"
  "waiting_for_option (copy_products s) = waiting_for_option s"
  "confirmed_orders (copy_products s) = confirmed_orders s"
  "pending_orders (copy_products s) = pending_orders s"
  "orders_table (copy_products s) = orders_table s"
  "own_products_db (copy_products s) = own_products_db s"
  "session_id (copy_products s) = session_id s"
  "user_id (copy_products s) = user_id s"
  by (simp_all add: copy_products_def split_def Let_def)

lemma copy_products_rows:
  assumes "valid_catalog (store s) (own_products_db s)"
  shows "rows_of (store (copy_products s)) (current_db (copy_products s))
           = rows_of (store s) (own_products_db s)"
proof -
  obtain h' cur where d: "deepcopy (store s) (own_products_db s) = (h', cur)"
    by (cases "deepcopy (store s) (own_products_db s)")
  have "rows_of h' cur = rows_of (store s) (own_products_db s)"
    using deepcopy_props(5) [OF assms d] .
  then show ?thesis by (simp add: copy_products_def d)
qed

lemma copy_products_fresh:
  assumes "valid_catalog (store s) (own_products_db s)"
  shows "take (length (store s)) (store (copy_products s)) = store s"
    and "length (current_db (copy_products s)) = length (own_products_db s)"
    and "list_all (\<lambda>a. length (store s) \<le> a \<and> a < length (store (copy_products s)))
           (current_db (copy_products s))"
proof -
  obtain h' cur where d: "deepcopy (store s) (own_products_db s) = (h', cur)"
    by (cases "deepcopy (store s) (own_products_db s)")
  have e: "store (copy_products s) = h'" "current_db (copy_products s) = cur"
    by (simp_all add: copy_products_def d)
  note p = deepcopy_props [OF assms d]
  show "take (length (store s)) (store (copy_products s)) = store s"
    unfolding e using p(1,2) by (simp add: list_eq_iff_nth_eq)
  show "length (current_db (copy_products s)) = length (own_products_db s)"
    unfolding e using p(3) .
  show "list_all (\<lambda>a. length (store s) \<le> a \<and> a < length (store (copy_products s)))
           (current_db (copy_products s))"
    unfolding e using p(3,4) by (auto simp: list_all_iff in_set_conv_nth)
qed

lemma start_new_conversation_fields:
  "state (start_new_conversation s) = ''waiting_for_next''"
  "reminder_count (start_new_conversation s) = 0"
  "active_timer (start_new_conversation s) = None"
  "waiting_for_option (start_new_conversation s) = False"
  "message_queue (start_new_conversation s) = message_queue s @ [Restarted]"
  "confirmed_orders (start_new_conversation s) = confirmed_orders s"
  "orders_table (start_new_conversation s) = orders_table s"
  "store (start_new_conversation s) = store (copy_products s)"
  "current_db (start_new_conversation s) = current_db (copy_products s)"
  by (simp_all add: start_new_conversation_def put_message_def cancel_timer_def)

lemma fresh_session_valid: "valid_catalog (store fresh_session) (own_products_db fresh_session)"
  by code_simp

lemma fresh_session_zero:
  "list_all (\<lambda>r. snd r = 0) (rows_of (store fresh_session) (own_products_db fresh_session))"
  by code_simp

lemma save_final_orders_fields:
  assumes "save_final_orders os st g s = Inr s'"
  shows "confirmed_orders s' = confirmed_orders s" and "state s' = state s"
    and "store s' = store s" and "current_db s' = current_db s"
    and "own_products_db s' = own_products_db s" and "message_queue s' = message_queue s"
    and "reminder_count s' = reminder_count s" and "active_timer s' = active_timer s"
    and "pending_orders s' = pending_orders s"
  using assms by (auto simp: save_final_orders_def Let_def split: if_splits)

lemma confirmed_orders_kept [simp]:
  "confirmed_orders (cancel_timer s) = confirmed_orders s"
  "confirmed_orders (start_inactivity_timer s) = confirmed_orders s"
  "confirmed_orders (put_message m s) = confirmed_orders s"
  "confirmed_orders (copy_products s) = confirmed_orders s"
  "confirmed_orders (reset_current s) = confirmed_orders s"
  "confirmed_orders (start_reminder_cycle s) = confirmed_orders s"
  "confirmed_orders (send_summary s) = confirmed_orders s"
  "confirmed_orders (start_new_conversation s) = confirmed_orders s"
  by (simp_all add: cancel_timer_def start_inactivity_timer_def put_message_def
      copy_products_def split_def Let_def reset_current_def
      start_reminder_cycle_def send_summary_def start_new_conversation_def)

lemma history_option:
  "take (length (confirmed_orders s)) (confirmed_orders (snd (handle_option_state ml s)))
     = confirmed_orders s"
  by (simp add: handle_option_state_def reply_def)

lemma history_pending:
  "take (length (confirmed_orders s))
     (confirmed_orders (snd (handle_pending_confirmation_state msg ml s))) = confirmed_orders s"
  by (auto simp add: handle_pending_confirmation_state_def reply_def Let_def
      save_final_orders_fields(1) split: prod.split sum.split)

lemma history_confirming:
  "take (length (confirmed_orders s))
     (confirmed_orders (snd (handle_confirmation_state msg ml s))) = confirmed_orders s"
  by (auto simp add: handle_confirmation_state_def reply_def Let_def
      save_final_orders_fields(1) split: prod.split sum.split)

lemma history_collecting:
  "take (length (confirmed_orders s))
     (confirmed_orders (snd (handle_collection_state msg ml s))) = confirmed_orders s"
  by (simp add: handle_collection_state_def reply_def Let_def split: prod.split sum.split)

lemma history_kept:
  "take (length (confirmed_orders s)) (confirmed_orders (snd (process_message msg s)))
     = confirmed_orders s"
  by (simp add: process_message_def Let_def reply_def history_option history_pending
      history_confirming history_collecting)

lemma confirm_words_no_cancel:
  "\<not> check_cancel_command ''confirmar''" "\<not> check_cancel_command ''pronto''"
  by code_simp+

lemma confirmar_lower: "py_strip (py_lower ''confirmar'') = ''confirmar''"
  by code_simp

lemma fresh_session_empty: "\<not> has_items fresh_session"
  by code_simp


section \<open>The reminder callback, step by step\<close>

lemma current_orders_frame [simp]:
  "get_current_orders (s\<lparr>message_queue := q\<rparr>) = get_current_orders s"
  "get_current_orders (s\<lparr>reminder_count := n\<rparr>) = get_current_orders s"
  "get_current_orders (s\<lparr>active_timer := t\<rparr>) = get_current_orders s"
  "get_current_orders (s\<lparr>state := st\<rparr>) = get_current_orders s"
  "get_current_orders (s\<lparr>orders_table := tb\<rparr>) = get_current_orders s"
  "has_items (s\<lparr>message_queue := q\<rparr>) = has_items s"
  "has_items (s\<lparr>reminder_count := n\<rparr>) = has_items s"
  "has_items (s\<lparr>active_timer := t\<rparr>) = has_items s"
  "has_items (s\<lparr>state := st\<rparr>) = has_items s"
  "has_items (s\<lparr>orders_table := tb\<rparr>) = has_items s"
  by (simp_all add: get_current_orders_def has_items_def)

lemma dict_set_subset: "set (dict_set d k v) \<subseteq> insert (k, v) (set d)"
  by (induction d) (auto split: if_splits)

lemma dict_set_new: "k \<notin> fst ` set d \<Longrightarrow> dict_set d k v = d @ [(k, v)]"
  by (induction d) auto

lemma fold_dict_subset:
  "set (fold (\<lambda>(p, q) d. if q > 0 then dict_set d p q else d) rows acc) \<subseteq> set acc \<union> set rows"
proof (induction rows arbitrary: acc)
  case Nil
  show ?case by simp
next
  case (Cons r rows)
  obtain p q where r: "r = (p, q)" by (cases r)
  show ?case
    using Cons.IH [of "if q > 0 then dict_set acc p q else acc"] dict_set_subset [of acc p q]
    unfolding r by (auto split: if_splits)
qed

lemma fold_dict_distinct:
  "distinct (map fst rows) \<Longrightarrow> fst ` set acc \<inter> fst ` set rows = {} \<Longrightarrow>
   fold (\<lambda>(p, q) d. if q > 0 then dict_set d p q else d) rows acc
     = acc @ filter (\<lambda>r. 0 < snd r) rows"
proof (induction rows arbitrary: acc)
  case Nil
  show ?case by simp
next
  case (Cons r rows)
  obtain p q where r: "r = (p, q)" by (cases r)
  have d: "distinct (map fst rows)" and pn: "p \<notin> fst ` set rows"
    using Cons.prems(1) unfolding r by auto
  have pa: "p \<notin> fst ` set acc" using Cons.prems(2) unfolding r by auto
  show ?case
  proof (cases "q > 0")
    case True
    have "fst ` set (acc @ [(p, q)]) \<inter> fst ` set rows = {}"
      using Cons.prems(2) pn unfolding r by auto
    then show ?thesis
      using Cons.IH [OF d, of "acc @ [(p, q)]"] True dict_set_new [OF pa]
      unfolding r by simp
  next
    case False
    have "fst ` set acc \<inter> fst ` set rows = {}"
      using Cons.prems(2) unfolding r by auto
    then show ?thesis
      using Cons.IH [OF d, of acc] False unfolding r by simp
  qed
qed

lemma get_current_orders_rows:
  "distinct (map fst (rows_of (store s) (current_db s))) \<Longrightarrow>
   get_current_orders s = filter (\<lambda>r. 0 < snd r) (rows_of (store s) (current_db s))"
  using fold_dict_distinct [of "rows_of (store s) (current_db s)" "[]"]
  by (simp add: get_current_orders_def)

lemma get_current_orders_in_range:
  assumes "list_all (\<lambda>r. snd r \<le> max_integer) (rows_of (store s) (current_db s))"
  shows "\<not> list_ex (\<lambda>(p, q). q > max_integer)
            (filter (\<lambda>(p, q). q > 0) (concat [get_current_orders s]))"
proof -
  have "set (get_current_orders s) \<subseteq> set (rows_of (store s) (current_db s))"
    using fold_dict_subset [of "rows_of (store s) (current_db s)" "[]"]
    by (simp add: get_current_orders_def)
  then show ?thesis
    using assms by (fastforce simp: list_all_iff list_ex_iff)
qed

lemma reminder_step:
  assumes "state s = ''confirming''" and "reminder_count s = n" and "n < 5"
  shows "send_reminder t r s
           = (None, s\<lparr>message_queue := message_queue s @ [Reminder n (get_current_orders s)],
               reminder_count := n + 1, active_timer := Some Send_reminder\<rparr>)"
  using assms by (simp add: send_reminder_def Let_def put_message_def cancel_timer_def)

lemma reset_current_fields:
  "state (reset_current s) = ''collecting''"
  "reminder_count (reset_current s) = 0"
  "active_timer (reset_current s) = None"
  "message_queue (reset_current s) = message_queue s"
  "orders_table (reset_current s) = orders_table s"
  "store (reset_current s) = store (copy_products s)"
  "current_db (reset_current s) = current_db (copy_products s)"
  by (simp_all add: reset_current_def cancel_timer_def)

lemma reminder_last:
  assumes "state s = ''confirming''" and "reminder_count s = 5" and "has_items s"
    and "list_all (\<lambda>r. snd r \<le> max_integer) (rows_of (store s) (current_db s))"
  shows "send_reminder t r s
           = (None,
              (reset_current
                 ((put_message (Reminder 5 (get_current_orders s)) s)
                    \<lparr>orders_table :=
                        orders_table s
                          @ map (\<lambda>(p, q). \<lparr>row_user_id = user_id s,
                                            row_session_id = session_id s,
                                            row_product = p, row_quantity = q,
                                            row_status = ''auto_confirmed'',
                                            row_order_group = ''auto_'' @ t @ ''_'' @ r\<rparr>)
                              (filter (\<lambda>(p, q). q > 0) (get_current_orders s)),
                      message_queue :=
                        message_queue s @ [Reminder 5 (get_current_orders s), Auto_confirmed]\<rparr>))
              \<lparr>state := ''waiting_for_next''\<rparr>)"
proof -
  define g where "g = ''auto_'' @ t @ ''_'' @ r"
  define s1 where "s1 = s\<lparr>message_queue := message_queue s @ [Reminder 5 (get_current_orders s)]\<rparr>"
  define s2 where "s2 = s1\<lparr>orders_table :=
                        orders_table s
                          @ map (\<lambda>(p, q). \<lparr>row_user_id = user_id s,
                                            row_session_id = session_id s,
                                            row_product = p, row_quantity = q,
                                            row_status = ''auto_confirmed'',
                                            row_order_group = g\<rparr>)
                              (filter (\<lambda>(p, q). q > 0) (get_current_orders s))\<rparr>"
  have o1: "get_current_orders s1 = get_current_orders s" "has_items s1"
    using assms(3) by (simp_all add: s1_def)
  have rng: "\<not> list_ex (\<lambda>(p, q). q > max_integer)
               (filter (\<lambda>(p, q). q > 0) (concat [get_current_orders s]))"
    using get_current_orders_in_range [OF assms(4)] .
  have sv: "save_final_orders [get_current_orders s] ''auto_confirmed'' g s1 = Inr s2"
    using rng by (simp add: save_final_orders_def Let_def s1_def s2_def)
  have a: "send_reminder t r s = mark_as_pending t r s1"
    using assms(1,2) by (simp add: send_reminder_def Let_def put_message_def s1_def)
  have b: "mark_as_pending t r s1
             = (None, (reset_current (put_message Auto_confirmed s2))\<lparr>state := ''waiting_for_next''\<rparr>)"
    unfolding mark_as_pending_def Let_def g_def [symmetric] o1 sv using o1(2) by simp
  show ?thesis
    unfolding a b by (simp add: s2_def s1_def put_message_def g_def)
qed

lemma send_summary_enters_confirming:
  assumes "state s = ''collecting''" and "has_items s"
  shows "state (send_summary s) = ''confirming''" and "reminder_count (send_summary s) = 1"
    and "has_items (send_summary s)"
  using assms
  by (simp_all add: send_summary_def Let_def start_reminder_cycle_def cancel_timer_def
      put_message_def)


subsection \<open>Two sessions reached by messages\<close>

lemma confirming_session_value:
  "confirming_session
     = fresh_session\<lparr>current_db := [54..<72], state := ''confirming'', reminder_count := 1,
         message_queue := [Summary [(''manga'', 2), (''queijo'', 3)]],
         active_timer := Some Send_reminder,
         store := store fresh_session
                    @ products_db_rows[10 := (''manga'', 2), 17 := (''queijo'', 3)]\<rparr>"
  by code_simp

lemma big_order_session_value:
  "big_order_session
     = fresh_session\<lparr>current_db := [54..<72], state := ''confirming'', reminder_count := 1,
         message_queue := [Summary [(''manga'', 3000000000)]],
         active_timer := Some Send_reminder,
         store := store fresh_session @ products_db_rows[10 := (''manga'', 3000000000)]\<rparr>"
  by code_simp


lemma confirming_session_facts:
  "state confirming_session = ''confirming''"
  "has_items confirming_session"
  "reminder_count confirming_session = 1"
  "valid_catalog (store confirming_session) (own_products_db confirming_session)"
  "list_all (\<lambda>r. snd r = 0) (rows_of (store confirming_session) (own_products_db confirming_session))"
  "list_all (\<lambda>r. snd r \<le> max_integer) (rows_of (store confirming_session) (current_db confirming_session))"
  "get_current_orders confirming_session = [(''manga'', 2), (''queijo'', 3)]"
  "orders_table confirming_session = []"
  "user_id confirming_session = ''uid''"
  "session_id confirming_session = ''sid''"
  "active_timer confirming_session = Some Send_reminder"
  "message_queue confirming_session = [Summary [(''manga'', 2), (''queijo'', 3)]]"
  "length (store confirming_session) = 72"
  unfolding confirming_session_value by code_simp+

section \<open>Extracted numbers are in position order and not negative\<close>

lemma py_int_nonneg: "py_int t = Inr v \<Longrightarrow> 0 \<le> v"
proof -
  have "0 \<le> acc \<Longrightarrow> 0 \<le> foldl (\<lambda>acc c. 10 * acc + int (code_point c - 48)) acc t" for acc
    by (induction t arbitrary: acc) simp_all
  then show "py_int t = Inr v \<Longrightarrow> 0 \<le> v"
    by (auto simp: py_int_def split: if_splits)
qed

lemma parse_number_words_pos: "parse_number_words ts = Some n \<Longrightarrow> 0 < n"
  by (simp add: parse_number_words_def Let_def split: if_splits)

lemma combine_number_words_le: "j \<le> fst (combine_number_words toks j acc)"
proof (induction toks j acc rule: combine_number_words.induct)
  case (1 toks j num_tokens)
  show ?case
  proof (cases "j + 1 < length toks \<and> toks ! j = ''e''
                  \<and> in_dict (toks ! (j + 1)) word2num_all")
    case True
    with 1 have "j + 2 \<le> fst (combine_number_words toks j num_tokens)"
      by (subst combine_number_words.simps) simp
    then show ?thesis by simp
  next
    case False
    then show ?thesis by (subst combine_number_words.simps) auto
  qed
qed

lemma number_run_after: "i < fst (number_run toks i)"
  using combine_number_words_le [of "i + 1" toks "[toks ! i]"]
  by (simp add: number_run_def split_def Let_def)

lemma numbers_ok_snoc:
  "numbers_ok i numbers \<Longrightarrow> 0 \<le> v \<Longrightarrow> i < j \<Longrightarrow> numbers_ok j (numbers @ [(i, v)])"
  by (auto simp: numbers_ok_def sorted_wrt_append list_all_iff)

lemma numbers_ok_mono: "numbers_ok i numbers \<Longrightarrow> i \<le> j \<Longrightarrow> numbers_ok j numbers"
  by (auto simp: numbers_ok_def list_all_iff)

lemma extract_loop_ok:
  "extract_loop toks i numbers = Inr res \<Longrightarrow> numbers_ok i numbers \<Longrightarrow>
   sorted_wrt (<) (map fst res) \<and> list_all (\<lambda>x. 0 \<le> snd x) res"
proof (induction toks i numbers rule: extract_loop.induct)
  case (1 toks i numbers)
  show ?case
  proof (cases "i < length toks")
    case False
    then have "res = numbers" using "1.prems"(1) by (subst (asm) extract_loop.simps) simp
    then show ?thesis using "1.prems"(2) by (auto simp: numbers_ok_def list_all_iff)
  next
    case True
    note i = this
    show ?thesis
    proof (cases "isdigit (toks ! i)")
      case True
      note d = this
      show ?thesis
      proof (cases "py_int (toks ! i)")
        case (Inl e)
        then show ?thesis using "1.prems"(1) i d by (subst (asm) extract_loop.simps) simp
      next
        case (Inr v)
        then have r: "extract_loop toks (i + 1) (numbers @ [(i, v)]) = Inr res"
          using "1.prems"(1) i d by (subst (asm) extract_loop.simps) simp
        have "numbers_ok (i + 1) (numbers @ [(i, v)])"
          using numbers_ok_snoc [OF "1.prems"(2) py_int_nonneg [OF Inr]] by simp
        then show ?thesis
          using "1.IH"(1) [OF i d Inr r] by simp
      qed
    next
      case False
      note nd = this
      show ?thesis
      proof (cases "in_dict (toks ! i) word2num_all")
        case True
        note w = this
        show ?thesis
        proof (cases "snd (number_run toks i)")
          case None
          then have r: "extract_loop toks (i + 1) numbers = Inr res"
            using "1.prems"(1) i nd w by (subst (asm) extract_loop.simps) simp
          have "numbers_ok (i + 1) numbers" using "1.prems"(2) numbers_ok_mono by simp
          then show ?thesis
            using "1.IH"(2) [OF i nd w None r] by simp
        next
          case (Some number)
          let ?j = "fst (number_run toks i)"
          have r: "extract_loop toks ?j (numbers @ [(i, number)]) = Inr res"
            using "1.prems"(1) i nd w Some by (subst (asm) extract_loop.simps) simp
          have "parse_number_words (filter (\<lambda>t. t \<noteq> ''e'')
                  (snd (combine_number_words toks (i + 1) [toks ! i]))) = Some number"
            using Some by (simp add: number_run_def split_def Let_def)
          then have pos: "0 \<le> number"
            using parse_number_words_pos by fastforce
          have "numbers_ok ?j (numbers @ [(i, number)])"
            using numbers_ok_snoc [OF "1.prems"(2) pos number_run_after] .
          then show ?thesis
            using "1.IH"(3) [OF i nd w Some r] by simp
        qed
      next
        case False
        then have r: "extract_loop toks (i + 1) numbers = Inr res"
          using "1.prems"(1) i nd by (subst (asm) extract_loop.simps) simp
        have "numbers_ok (i + 1) numbers" using "1.prems"(2) numbers_ok_mono by simp
        then show ?thesis
          using "1.IH"(4) [OF i nd False r] by simp
      qed
    qed
  qed
qed

lemma extract_numbers_ok:
  assumes "extract_numbers_and_positions toks = Inr numbers"
  shows "sorted_wrt (<) (map fst numbers)" and "list_all (\<lambda>x. 0 \<le> snd x) numbers"
proof -
  have "sorted_wrt (<) (map fst numbers) \<and> list_all (\<lambda>x. 0 \<le> snd x) numbers"
    using extract_loop_ok [of toks 0 "[]" numbers] assms
    by (simp add: extract_numbers_and_positions_def numbers_ok_def)
  then show "sorted_wrt (<) (map fst numbers)" "list_all (\<lambda>x. 0 \<le> snd x) numbers"
    by simp_all
qed

section \<open>Claim C6: similarity is symmetric and reflexive\<close>

text \<open>
  C6.  \<open>similarity_percentage\<close> is symmetric: for every pair of strings \<open>a\<close>, \<open>b\<close> the score of
  \<open>(a, b)\<close> is the score of \<open>(b, a)\<close>; it is reflexive at 100: every string \<open>x\<close> scores 100
  against itself; and two empty strings score 100.
\<close>

theorem similarity_percentage_symmetric_reflexive:
  "similarity_percentage a b = similarity_percentage b a \<and>
   similarity_percentage x x = 100 \<and>
   similarity_percentage [] [] = 100"
  by (simp add: similarity_percentage_def Let_def levenshtein_distance_sym [of "normalize a"]
      levenshtein_distance_refl max.commute)

section \<open>Claim C1: two products with spelled-out quantities\<close>

text \<open>
  C1.  For the catalog of the two products \<open>manga\<close> and \<open>queijo\<close> with quantities 0 (rows 0
  and 1 of the store), and also for the program's catalog, which contains both,
  \<open>parse_order_interactive\<close> on \<open>dois mangas e tres queijos\<close> returns exactly two order lines:
  \<open>manga\<close> with quantity 2 and score 83.33, and \<open>queijo\<close> with quantity 3 and score 85.71,
  both at least 80.  The working catalog it returns is a fresh copy of the rows (addresses
  2, 3, respectively 18 to 35) with these two quantities merged in; the rows passed in
  keep their quantities.
\<close>

theorem parse_dois_mangas_e_tres_queijos:
  "parse_order_interactive ''dois mangas e tres queijos'' [0, 1]
       [(''manga'', 0), (''queijo'', 0)]
     = (Inr ([\<lparr>product = ''manga'', qty = 2, score = 8333 / 100\<rparr>,
              \<lparr>product = ''queijo'', qty = 3, score = 8571 / 100\<rparr>], [2, 3]),
        [(''manga'', 0), (''queijo'', 0), (''manga'', 2), (''queijo'', 3)])
   \<and> parse_order_interactive ''dois mangas e tres queijos'' products_db products_db_rows
     = (Inr ([\<lparr>product = ''manga'', qty = 2, score = 8333 / 100\<rparr>,
              \<lparr>product = ''queijo'', qty = 3, score = 8571 / 100\<rparr>], [18..<36]),
        products_db_rows @ products_db_rows[10 := (''manga'', 2), 17 := (''queijo'', 3)])
   \<and> (80 :: rat) \<le> 8333 / 100 \<and> (80 :: rat) \<le> 8571 / 100"
  using parse_mangas_queijos_small parse_mangas_queijos_program by simp

section \<open>Claim C2: five reminders, then the automatic confirmation\<close>

text \<open>
  C2, as stated, fails for a quantity that the orders table cannot hold.  The column
  \<open>quantity\<close> of the table is an \<open>INTEGER\<close>, and the \<open>INSERT\<close> of \<open>_save_final_orders\<close> raises for
  a quantity above 2147483647; \<open>_mark_as_pending\<close> saves before it queues the notice, resets the
  working catalog and changes the state.  The session reached by the messages \<open>oi\<close>, \<open>1\<close> and
  \<open>3000000000 mangas\<close> and the summary is in state \<open>confirming\<close> with an item; its fifth
  reminder ends with the error, and after the five firings the state is still \<open>confirming\<close> and
  the orders table is empty.
\<close>

theorem big_order_not_auto_confirmed:
  "state big_order_session = ''confirming'' \<and> has_items big_order_session
   \<and> fst (send_reminder ''000005'' ''eeeeee''
            (fire_all [(''000001'', ''aaaaaa''), (''000002'', ''bbbbbb''), (''000003'', ''cccccc''),
                       (''000004'', ''dddddd'')] big_order_session)) = Some DataError
   \<and> state (fire_all [(''000001'', ''aaaaaa''), (''000002'', ''bbbbbb''), (''000003'', ''cccccc''),
                       (''000004'', ''dddddd''), (''000005'', ''eeeeee'')] big_order_session)
       = ''confirming''
   \<and> orders_table (fire_all [(''000001'', ''aaaaaa''), (''000002'', ''bbbbbb''),
                       (''000003'', ''cccccc''), (''000004'', ''dddddd''),
                       (''000005'', ''eeeeee'')] big_order_session) = []"
  unfolding big_order_session_value by code_simp

text \<open>
  C2, amended.  State \<open>confirming\<close> is entered by \<open>_send_summary\<close> only, which leaves the
  reminder count at 1 (\<open>send_summary_enters_confirming\<close>).  From such a state with at least one
  positive quantity and every quantity of the working catalog at most 2147483647, five firings
  of the reminder callback with no message between them confirm the order automatically: the
  fifth firing ends without an error; the positive quantities of the working catalog (its rows
  with a positive quantity, in catalog order, when the product names are distinct) are appended
  to the orders table with status \<open>auto_confirmed\<close> under the group identifier generated at the
  fifth firing, which is not \<open>main\<close>; the five reminders and then the notice of the automatic
  confirmation are queued; the working catalog is a fresh copy of the product catalog, at
  addresses the store did not have before, all quantities 0, the rows of the store before
  unchanged; and the state is \<open>waiting_for_next\<close>, with the reminder count 0 and no callback
  scheduled.  The arguments \<open>t\<close> and \<open>r\<close> of a firing are what the clock and the random generator
  give it.
\<close>

theorem five_reminders_auto_confirm:
  assumes "state s = ''confirming''" and "has_items s" and "reminder_count s = 1"
    and "valid_catalog (store s) (own_products_db s)"
    and "list_all (\<lambda>r. snd r = 0) (rows_of (store s) (own_products_db s))"
    and "list_all (\<lambda>r. snd r \<le> max_integer) (rows_of (store s) (current_db s))"
  shows "fst (send_reminder t5 r5 (fire_all [(t1, r1), (t2, r2), (t3, r3), (t4, r4)] s)) = None
       \<and> state (fire_all [(t1, r1), (t2, r2), (t3, r3), (t4, r4), (t5, r5)] s) = ''waiting_for_next''
       \<and> orders_table (fire_all [(t1, r1), (t2, r2), (t3, r3), (t4, r4), (t5, r5)] s)
           = orders_table s
               @ map (\<lambda>(p, q). \<lparr>row_user_id = user_id s, row_session_id = session_id s,
                                 row_product = p, row_quantity = q,
                                 row_status = ''auto_confirmed'',
                                 row_order_group = ''auto_'' @ t5 @ ''_'' @ r5\<rparr>)
                   (filter (\<lambda>(p, q). q > 0) (get_current_orders s))
       \<and> (distinct (map fst (rows_of (store s) (current_db s)))
            \<longrightarrow> get_current_orders s
                  = filter (\<lambda>r. 0 < snd r) (rows_of (store s) (current_db s)))
       \<and> ''auto_'' @ t5 @ ''_'' @ r5 \<noteq> ''main''
       \<and> message_queue (fire_all [(t1, r1), (t2, r2), (t3, r3), (t4, r4), (t5, r5)] s)
           = message_queue s
               @ [Reminder 1 (get_current_orders s), Reminder 2 (get_current_orders s),
                  Reminder 3 (get_current_orders s), Reminder 4 (get_current_orders s),
                  Reminder 5 (get_current_orders s), Auto_confirmed]
       \<and> rows_of (store (fire_all [(t1, r1), (t2, r2), (t3, r3), (t4, r4), (t5, r5)] s))
             (current_db (fire_all [(t1, r1), (t2, r2), (t3, r3), (t4, r4), (t5, r5)] s))
           = rows_of (store s) (own_products_db s)
       \<and> list_all (\<lambda>r. snd r = 0)
           (rows_of (store (fire_all [(t1, r1), (t2, r2), (t3, r3), (t4, r4), (t5, r5)] s))
              (current_db (fire_all [(t1, r1), (t2, r2), (t3, r3), (t4, r4), (t5, r5)] s)))
       \<and> list_all (\<lambda>a. length (store s) \<le> a
                        \<and> a < length (store (fire_all [(t1, r1), (t2, r2), (t3, r3), (t4, r4),
                                                       (t5, r5)] s)))
           (current_db (fire_all [(t1, r1), (t2, r2), (t3, r3), (t4, r4), (t5, r5)] s))
       \<and> take (length (store s))
             (store (fire_all [(t1, r1), (t2, r2), (t3, r3), (t4, r4), (t5, r5)] s)) = store s
       \<and> reminder_count (fire_all [(t1, r1), (t2, r2), (t3, r3), (t4, r4), (t5, r5)] s) = 0
       \<and> active_timer (fire_all [(t1, r1), (t2, r2), (t3, r3), (t4, r4), (t5, r5)] s) = None"
proof -
  define o1 where "o1 = get_current_orders s"
  define s4 where "s4 = s\<lparr>message_queue := message_queue s @ [Reminder 1 o1, Reminder 2 o1,
                            Reminder 3 o1, Reminder 4 o1],
                         reminder_count := 5, active_timer := Some Send_reminder\<rparr>"
  have e1: "fire_reminder t1 r1 s
              = s\<lparr>message_queue := message_queue s @ [Reminder 1 o1],
                  reminder_count := 2, active_timer := Some Send_reminder\<rparr>"
    using reminder_step [of s 1 t1 r1] assms(1,3) by (simp add: o1_def fire_reminder_def)
  have e2: "fire_reminder t2 r2 (fire_reminder t1 r1 s)
              = s\<lparr>message_queue := message_queue s @ [Reminder 1 o1, Reminder 2 o1],
                  reminder_count := 3, active_timer := Some Send_reminder\<rparr>"
    unfolding e1 using assms(1) by (simp add: reminder_step [where n = 2] o1_def fire_reminder_def)
  have e3: "fire_reminder t3 r3 (fire_reminder t2 r2 (fire_reminder t1 r1 s))
              = s\<lparr>message_queue := message_queue s @ [Reminder 1 o1, Reminder 2 o1, Reminder 3 o1],
                  reminder_count := 4, active_timer := Some Send_reminder\<rparr>"
    unfolding e2 using assms(1) by (simp add: reminder_step [where n = 3] o1_def fire_reminder_def)
  have e4: "fire_reminder t4 r4 (fire_reminder t3 r3 (fire_reminder t2 r2 (fire_reminder t1 r1 s)))
              = s4"
    unfolding e3 s4_def using assms(1)
    by (simp add: reminder_step [where n = 4] o1_def fire_reminder_def)
  have f4: "fire_all [(t1, r1), (t2, r2), (t3, r3), (t4, r4)] s = s4"
    using e4 by (simp add: fire_all_def)
  have s4_state: "state s4 = ''confirming''" "reminder_count s4 = 5" "has_items s4"
    using assms(1,2) by (simp_all add: s4_def)
  have s4_o: "get_current_orders s4 = o1" by (simp add: s4_def o1_def)
  have s4_rng: "list_all (\<lambda>r. snd r \<le> max_integer) (rows_of (store s4) (current_db s4))"
    using assms(6) by (simp add: s4_def)
  define s4' where "s4' = (put_message (Reminder 5 o1) s4)
                    \<lparr>orders_table :=
                        orders_table s
                          @ map (\<lambda>(p, q). \<lparr>row_user_id = user_id s,
                                            row_session_id = session_id s,
                                            row_product = p, row_quantity = q,
                                            row_status = ''auto_confirmed'',
                                            row_order_group = ''auto_'' @ t5 @ ''_'' @ r5\<rparr>)
                              (filter (\<lambda>(p, q). q > 0) o1),
                      message_queue := message_queue s4 @ [Reminder 5 o1, Auto_confirmed]\<rparr>"
  have e5: "send_reminder t5 r5 s4 = (None, (reset_current s4')\<lparr>state := ''waiting_for_next''\<rparr>)"
    using reminder_last [OF s4_state s4_rng, of t5 r5]
    by (simp add: s4_o s4'_def) (simp add: s4_def)
  have f5: "fire_all [(t1, r1), (t2, r2), (t3, r3), (t4, r4), (t5, r5)] s
              = (reset_current s4')\<lparr>state := ''waiting_for_next''\<rparr>"
    using e4 e5 by (simp add: fire_all_def fire_reminder_def)
  have s4'_store: "store s4' = store s" "own_products_db s4' = own_products_db s"
    by (simp_all add: s4'_def s4_def put_message_def)
  have v': "valid_catalog (store s4') (own_products_db s4')"
    using assms(4) by (simp add: s4'_store)
  have rows: "rows_of (store (reset_current s4')) (current_db (reset_current s4'))
                = rows_of (store s) (own_products_db s)"
    using copy_products_rows [OF v'] by (simp add: reset_current_fields s4'_store)
  have fresh: "list_all (\<lambda>a. length (store s) \<le> a \<and> a < length (store (reset_current s4')))
                 (current_db (reset_current s4'))"
    "take (length (store s)) (store (reset_current s4')) = store s"
    using copy_products_fresh(3) [OF v'] copy_products_fresh(1) [OF v']
    by (simp_all add: reset_current_fields s4'_store)
  have q: "message_queue s4' = message_queue s
               @ [Reminder 1 o1, Reminder 2 o1, Reminder 3 o1, Reminder 4 o1, Reminder 5 o1,
                  Auto_confirmed]"
    by (simp add: s4'_def s4_def put_message_def)
  have tb: "orders_table s4' = orders_table s
               @ map (\<lambda>(p, q). \<lparr>row_user_id = user_id s, row_session_id = session_id s,
                                 row_product = p, row_quantity = q,
                                 row_status = ''auto_confirmed'',
                                 row_order_group = ''auto_'' @ t5 @ ''_'' @ r5\<rparr>)
                   (filter (\<lambda>(p, q). q > 0) o1)"
    by (simp add: s4'_def s4_def put_message_def)
  show ?thesis
    unfolding f4 f5 e5
    using rows fresh q tb assms(5) get_current_orders_rows [of s]
    by (simp add: reset_current_fields o1_def)
qed

theorem five_reminders_auto_confirm_witness:
  "state confirming_session = ''confirming'' \<and> has_items confirming_session
   \<and> reminder_count confirming_session = 1
   \<and> valid_catalog (store confirming_session) (own_products_db confirming_session)
   \<and> list_all (\<lambda>r. snd r = 0)
        (rows_of (store confirming_session) (own_products_db confirming_session))
   \<and> list_all (\<lambda>r. snd r \<le> max_integer)
        (rows_of (store confirming_session) (current_db confirming_session))
   \<and> state (fire_all [(''000001'', ''aaaaaa''), (''000002'', ''bbbbbb''), (''000003'', ''cccccc''),
                       (''000004'', ''dddddd''), (''000005'', ''eeeeee'')] confirming_session)
       = ''waiting_for_next''
   \<and> orders_table (fire_all [(''000001'', ''aaaaaa''), (''000002'', ''bbbbbb''),
                       (''000003'', ''cccccc''), (''000004'', ''dddddd''),
                       (''000005'', ''eeeeee'')] confirming_session)
       = [\<lparr>row_user_id = ''uid'', row_session_id = ''sid'', row_product = ''manga'',
           row_quantity = 2, row_status = ''auto_confirmed'',
           row_order_group = ''auto_000005_eeeeee''\<rparr>,
          \<lparr>row_user_id = ''uid'', row_session_id = ''sid'', row_product = ''queijo'',
           row_quantity = 3, row_status = ''auto_confirmed'',
           row_order_group = ''auto_000005_eeeeee''\<rparr>]"
  using five_reminders_auto_confirm [OF confirming_session_facts(1-6),
      of "''000005''" "''eeeeee''" "''000001''" "''aaaaaa''" "''000002''" "''bbbbbb''"
         "''000003''" "''cccccc''" "''000004''" "''dddddd''"]
    confirming_session_facts
  by simp

section \<open>Claim C3: the cancel phrase\<close>

subsection \<open>A text that contains a cancel phrase is recognised\<close>

lemma contains_infix: "contains c (pre @ c @ post)"
proof (induction pre)
  case Nil
  show ?case by (subst contains.simps) (simp add: starts_with_def)
next
  case (Cons x pre)
  then show ?case by (subst contains.simps) simp
qed

lemma dropWhile_keeps_infix:
  assumes "c \<noteq> []" and "\<not> P (hd c)"
  shows "\<exists>pre'. dropWhile P (pre @ c @ post) = pre' @ c @ post"
proof (induction pre)
  case Nil
  have "dropWhile P (c @ post) = c @ post"
    using assms by (cases c) simp_all
  then show ?case by (metis append_Nil)
next
  case (Cons x pre)
  show ?case
  proof (cases "P x")
    case True
    then show ?thesis using Cons by simp
  next
    case False
    then have "dropWhile P ((x # pre) @ c @ post) = (x # pre) @ c @ post" by simp
    then show ?thesis by blast
  qed
qed

lemma py_strip_keeps_infix:
  assumes "c \<noteq> []" and "\<not> is_space (hd c)" and "\<not> is_space (last c)"
  shows "\<exists>pre' post'. py_strip (pre @ c @ post) = pre' @ c @ post'"
proof -
  obtain pre' where a: "dropWhile is_space (pre @ c @ post) = pre' @ c @ post"
    using dropWhile_keeps_infix [of c is_space pre post] assms(1,2) by blast
  have rc: "rev c \<noteq> []" "\<not> is_space (hd (rev c))"
    using assms(1,3) by (simp_all add: hd_rev)
  obtain q where b: "dropWhile is_space (rev post @ rev c @ rev pre') = q @ rev c @ rev pre'"
    using dropWhile_keeps_infix [of "rev c" is_space "rev post" "rev pre'"] rc by blast
  have "py_strip (pre @ c @ post) = pre' @ c @ rev q"
    by (simp add: py_strip_def a b)
  then show ?thesis by blast
qed

lemma cancel_phrase_detected:
  assumes "msg = pre @ phrase @ post"
    and "py_lower phrase = ''cancelar'' \<or> py_lower phrase = ''hoje nao''"
  shows "check_cancel_command (py_strip (py_lower msg))"
proof -
  define c where "c = py_lower phrase"
  have l: "py_lower msg = py_lower pre @ c @ py_lower post"
    using assms(1) by (simp add: py_lower_def c_def)
  have sp: "\<not> is_space CHR ''c''" "\<not> is_space CHR ''r''" "\<not> is_space CHR ''h''"
    "\<not> is_space CHR ''o''"
    by code_simp+
  have ends: "c \<noteq> [] \<and> \<not> is_space (hd c) \<and> \<not> is_space (last c)"
    using assms(2) sp unfolding c_def by auto
  obtain pre' post' where s: "py_strip (py_lower msg) = pre' @ c @ post'"
    unfolding l using py_strip_keeps_infix [of c "py_lower pre" "py_lower post"] ends by blast
  have "contains c (py_strip (py_lower msg))"
    unfolding s by (rule contains_infix)
  then show ?thesis
    using assms(2) unfolding c_def
    by (auto simp: check_cancel_command_def cancel_commands_def)
qed

lemma cancelar_upper: "py_lower ''CANCELAR'' = ''cancelar''" "py_lower ''hoje nao'' = ''hoje nao''"
  by code_simp+

subsection \<open>The claim\<close>

text \<open>
  C3, as stated, fails in its last part: a cancel phrase does emit a message.
  \<open>start_new_conversation\<close> puts the notice of the restart on the outgoing queue of the
  session; on a new session the queue holds that notice after \<open>cancelar\<close>.
\<close>

theorem cancel_queues_restart_notice:
  "message_queue (snd (process_message ''cancelar'' fresh_session)) = [Restarted]"
  by code_simp

text \<open>
  C3, amended.  In every session state, \<open>process_message\<close> on a text that contains, anywhere
  and in any letter case, the phrase \<open>cancelar\<close> or the phrase \<open>hoje nao\<close> returns a
  successful result without a message, leaves the session in state \<open>waiting_for_next\<close> with
  reminder count 0 and no scheduled callback, replaces the working catalog by a fresh copy of
  the session's product catalog (as many rows, with the names and the quantities of the product
  catalog, all 0, at addresses the store did not have before, the rows of the store before
  unchanged), and appends one notice of the restart to the outgoing queue.
\<close>

theorem cancel_resets_session:
  assumes "msg = pre @ phrase @ post"
    and "py_lower phrase = ''cancelar'' \<or> py_lower phrase = ''hoje nao''"
    and "valid_catalog (store s) (own_products_db s)"
    and "list_all (\<lambda>r. snd r = 0) (rows_of (store s) (own_products_db s))"
  shows "fst (process_message msg s) = Inr \<lparr>success = True, message = None\<rparr>
       \<and> state (snd (process_message msg s)) = ''waiting_for_next''
       \<and> reminder_count (snd (process_message msg s)) = 0
       \<and> active_timer (snd (process_message msg s)) = None
       \<and> rows_of (store (snd (process_message msg s))) (current_db (snd (process_message msg s)))
           = rows_of (store s) (own_products_db s)
       \<and> list_all (\<lambda>r. snd r = 0)
           (rows_of (store (snd (process_message msg s))) (current_db (snd (process_message msg s))))
       \<and> length (current_db (snd (process_message msg s))) = length (own_products_db s)
       \<and> list_all (\<lambda>a. length (store s) \<le> a \<and> a < length (store (snd (process_message msg s))))
           (current_db (snd (process_message msg s)))
       \<and> take (length (store s)) (store (snd (process_message msg s))) = store s
       \<and> message_queue (snd (process_message msg s)) = message_queue s @ [Restarted]"
proof -
  have c: "check_cancel_command (py_strip (py_lower msg))"
    using cancel_phrase_detected [OF assms(1,2)] .
  have e: "process_message msg s = reply True None (start_new_conversation s)"
    using c by (simp add: process_message_def Let_def)
  show ?thesis
    unfolding e reply_def
    using copy_products_rows [OF assms(3)] copy_products_fresh [OF assms(3)] assms(4)
    by (simp add: start_new_conversation_fields)
qed

theorem cancel_resets_session_witness:
  "'' Por favor CANCELAR o pedido '' = '' Por favor '' @ ''CANCELAR'' @ '' o pedido ''
   \<and> (py_lower ''CANCELAR'' = ''cancelar'' \<or> py_lower ''CANCELAR'' = ''hoje nao'')
   \<and> valid_catalog (store confirming_session) (own_products_db confirming_session)
   \<and> list_all (\<lambda>r. snd r = 0)
        (rows_of (store confirming_session) (own_products_db confirming_session))
   \<and> state confirming_session = ''confirming'' \<and> reminder_count confirming_session = 1
   \<and> active_timer confirming_session = Some Send_reminder
   \<and> get_current_orders confirming_session = [(''manga'', 2), (''queijo'', 3)]
   \<and> fst (process_message '' Por favor CANCELAR o pedido '' confirming_session)
       = Inr \<lparr>success = True, message = None\<rparr>
   \<and> state (snd (process_message '' Por favor CANCELAR o pedido '' confirming_session))
       = ''waiting_for_next''
   \<and> reminder_count (snd (process_message '' Por favor CANCELAR o pedido '' confirming_session)) = 0
   \<and> active_timer (snd (process_message '' Por favor CANCELAR o pedido '' confirming_session)) = None
   \<and> list_all (\<lambda>r. snd r = 0)
        (rows_of (store (snd (process_message '' Por favor CANCELAR o pedido '' confirming_session)))
           (current_db (snd (process_message '' Por favor CANCELAR o pedido '' confirming_session))))
   \<and> list_all (\<lambda>a. 72 \<le> a)
        (current_db (snd (process_message '' Por favor CANCELAR o pedido '' confirming_session)))
   \<and> message_queue (snd (process_message '' Por favor CANCELAR o pedido '' confirming_session))
       = [Summary [(''manga'', 2), (''queijo'', 3)], Restarted]
   \<and> state (snd (process_message ''hoje nao'' confirming_session)) = ''waiting_for_next''"
proof -
  note f = confirming_session_facts
  have h1: "'' Por favor CANCELAR o pedido '' = '' Por favor '' @ ''CANCELAR'' @ '' o pedido ''"
    by simp
  have h2: "py_lower ''CANCELAR'' = ''cancelar'' \<or> py_lower ''CANCELAR'' = ''hoje nao''"
    using cancelar_upper(1) by (rule disjI1)
  have g1: "''hoje nao'' = [] @ ''hoje nao'' @ []" by simp
  have g2: "py_lower ''hoje nao'' = ''cancelar'' \<or> py_lower ''hoje nao'' = ''hoje nao''"
    using cancelar_upper(2) by (rule disjI2)
  note r = cancel_resets_session [OF h1 h2 f(4) f(5)]
  note r' = cancel_resets_session [OF g1 g2 f(4) f(5)]
  define s' where "s' = snd (process_message '' Por favor CANCELAR o pedido '' confirming_session)"
  have fresh: "list_all (\<lambda>a. 72 \<le> a) (current_db s')"
    using r unfolding f(13) s'_def [symmetric] by (auto simp: list_all_iff)
  have q: "message_queue s' = [Summary [(''manga'', 2), (''queijo'', 3)], Restarted]"
    using r unfolding s'_def [symmetric] f(12) by simp
  show ?thesis
    unfolding s'_def [symmetric]
    using r r' fresh q f(1,3,4,5,7,11) h1 h2
    unfolding s'_def [symmetric]
    by blast
qed

section \<open>Claim C4: the message about 25 lemons\<close>

text \<open>
  C4, as stated, fails.  Against the program's catalog \<open>parse_order_interactive\<close> on
  \<open>vinte e cinco lim\<close>\<open>es\<close> (with the accented o between) returns no order line at all, so none
  with quantity 25.
\<close>

theorem limoes_no_order_line:
  "fst (parse_order_interactive limoes_message products_db products_db_rows) = Inr ([], [18..<36])"
  using parse_limoes by simp

text \<open>
  C4, amended.  The message is cut into the tokens \<open>vinte\<close>, \<open>e\<close>, \<open>cinco\<close>, \<open>limoes\<close>, and the
  run \<open>vinte e cinco\<close> is extracted as the single number 25 at position 0.  The best-matching
  product for the token \<open>limoes\<close> is the lemon entry, with the score 50 exactly (three edits
  on six characters), which is below the threshold 80 and not above the bar 50 of the
  single-token branch: no line is committed, and the working catalog that is returned has
  the quantities of the catalog passed in.
\<close>

theorem limoes_number_extracted_product_not_matched:
  "tokenize limoes_message = [''vinte'', ''e'', ''cinco'', ''limoes'']
   \<and> extract_numbers_and_positions (tokenize limoes_message) = Inr [(0, 25)]
   \<and> find_best_product ''limoes'' (zip (map fst products_db_rows) [0..<18]) = (50, Some (lemon, 0))
   \<and> parse_order_interactive limoes_message products_db products_db_rows
     = (Inr ([], [18..<36]), products_db_rows @ products_db_rows)"
  using tokenize_limoes extract_limoes best_limoes parse_limoes by simp

section \<open>Claim C8: confirming an empty order\<close>

text \<open>
  C8, as stated, fails: not every state rejects the confirmation of an empty order.  A new
  session is in state \<open>waiting_for_next\<close> and has no item; \<open>confirmar\<close> is answered there with
  the menu, as a successful result.
\<close>

theorem empty_confirmation_accepted_when_waiting:
  "\<not> has_items fresh_session
   \<and> state fresh_session = ''waiting_for_next''
   \<and> fst (process_message ''confirmar'' fresh_session) = Inr \<lparr>success = True, message = Some Menu\<rparr>"
  by code_simp

text \<open>
  C8, amended.  While the working catalog has no positive quantity, a message that is
  \<open>confirmar\<close> or \<open>pronto\<close> (after lower-casing and stripping) is rejected in state
  \<open>collecting\<close> (the list is empty) and in state \<open>option\<close> (no menu choice), the session
  staying as it is; in state \<open>waiting_for_next\<close> it opens the conversation like any other
  message: the result is successful, with the menu, and the state becomes \<open>option\<close>.  In no
  state does any message remove an entry of the confirmed orders of the session: the history
  before is a prefix of the history after.
\<close>

theorem empty_confirmation_by_state:
  assumes "py_strip (py_lower msg) = ''confirmar'' \<or> py_strip (py_lower msg) = ''pronto''"
    and "\<not> has_items s"
  shows "process_message msg (s\<lparr>state := ''collecting''\<rparr>)
           = (Inr \<lparr>success = False, message = Some Empty_list\<rparr>, s\<lparr>state := ''collecting''\<rparr>)
       \<and> process_message msg (s\<lparr>state := ''option'', waiting_for_option := True\<rparr>)
           = (Inr \<lparr>success = False, message = Some Choose_option\<rparr>,
              s\<lparr>state := ''option'', waiting_for_option := True\<rparr>)
       \<and> process_message msg (s\<lparr>state := ''waiting_for_next''\<rparr>)
           = (Inr \<lparr>success = True, message = Some Menu\<rparr>,
              s\<lparr>state := ''option'', waiting_for_option := True\<rparr>)
       \<and> take (length (confirmed_orders s)) (confirmed_orders (snd (process_message msg' s)))
           = confirmed_orders s"
proof -
  have nc: "\<not> check_cancel_command (py_strip (py_lower msg))"
    using assms(1) confirm_words_no_cancel by auto
  have hi: "\<not> has_items (s\<lparr>state := ''collecting''\<rparr>)"
    using assms(2) by (simp add: has_items_def)
  have a: "process_message msg (s\<lparr>state := ''collecting''\<rparr>)
           = (Inr \<lparr>success = False, message = Some Empty_list\<rparr>, s\<lparr>state := ''collecting''\<rparr>)"
    using nc hi assms(1)
    by (auto simp add: process_message_def Let_def handle_collection_state_def reply_def)
  have b: "process_message msg (s\<lparr>state := ''option'', waiting_for_option := True\<rparr>)
           = (Inr \<lparr>success = False, message = Some Choose_option\<rparr>,
              s\<lparr>state := ''option'', waiting_for_option := True\<rparr>)"
    using nc assms(1)
    by (auto simp add: process_message_def Let_def handle_option_state_def reply_def)
  have c: "process_message msg (s\<lparr>state := ''waiting_for_next''\<rparr>)
           = (Inr \<lparr>success = True, message = Some Menu\<rparr>,
              s\<lparr>state := ''option'', waiting_for_option := True\<rparr>)"
    using nc by (simp add: process_message_def Let_def reply_def)
  show ?thesis using a b c history_kept by simp
qed

theorem empty_confirmation_by_state_witness:
  "(py_strip (py_lower ''confirmar'') = ''confirmar'' \<or> py_strip (py_lower ''confirmar'') = ''pronto'')
   \<and> \<not> has_items fresh_session
   \<and> process_message ''confirmar'' (fresh_session\<lparr>state := ''collecting''\<rparr>)
       = (Inr \<lparr>success = False, message = Some Empty_list\<rparr>, fresh_session\<lparr>state := ''collecting''\<rparr>)"
  using empty_confirmation_by_state [of "''confirmar''" fresh_session] confirmar_lower
    fresh_session_empty
  by simp

section \<open>Claim C10: the digit 0 and the word zero\<close>

text \<open>
  C10.  Before a token \<open>p\<close> that is no number, the digit token \<open>0\<close> is extracted as the
  number 0 at position 0 and is the quantity associated with \<open>p\<close>, whereas the word \<open>zero\<close>
  parses to 0, is discarded (no number is extracted) and \<open>p\<close> gets the default quantity 1
  with no number position.  On the program's catalog: \<open>0 manga\<close> commits a line for \<open>manga\<close>
  with quantity 0 and leaves the running total of the working copy at 0; \<open>zero manga\<close>
  commits a line with quantity 1 and the running total becomes 1.
\<close>

theorem digit_zero_extracted_word_zero_discarded:
  assumes "\<not> is_number_token p"
  shows "extract_numbers_and_positions [''0'', p] = Inr [(0, 0)]
       \<and> find_associated_number 1 [''0'', p] [(0, 0)] = (0, Some 0)
       \<and> extract_numbers_and_positions [''zero'', p] = Inr []
       \<and> find_associated_number 1 [''zero'', p] [] = (1, None)
       \<and> tokenize ''0 manga'' = [''0'', ''manga'']
       \<and> tokenize ''zero manga'' = [''zero'', ''manga'']
       \<and> parse_order_interactive ''0 manga'' products_db products_db_rows
           = (Inr ([\<lparr>product = ''manga'', qty = 0, score = 100\<rparr>], [18..<36]),
              products_db_rows @ products_db_rows)
       \<and> parse_order_interactive ''zero manga'' products_db products_db_rows
           = (Inr ([\<lparr>product = ''manga'', qty = 1, score = 100\<rparr>], [18..<36]),
              products_db_rows @ products_db_rows[10 := (''manga'', 1)])"
  using assms extract_0_p extract_zero_p assoc_0_p assoc_zero_p tokenize_0_manga
    tokenize_zero_manga parse_0_manga parse_zero_manga
  by simp

theorem digit_zero_extracted_word_zero_discarded_witness:
  "\<not> is_number_token ''manga''
   \<and> extract_numbers_and_positions [''0'', ''manga''] = Inr [(0, 0)]
   \<and> find_associated_number 1 [''0'', ''manga''] [(0, 0)] = (0, Some 0)
   \<and> extract_numbers_and_positions [''zero'', ''manga''] = Inr []
   \<and> find_associated_number 1 [''zero'', ''manga''] [] = (1, None)"
  using digit_zero_extracted_word_zero_discarded [OF manga_no_number] manga_no_number by simp

end
